theory Spec2Isabelle
  imports Complex_Main
begin

section \<open>Strings and DOM handles\<close>

text \<open>
  A DOM element is a lookup handle. Everything the core reads from an element (its text, its
  context snippet, its bounds) is asked of an external collaborator, which the model takes
  as a parameter.
\<close>

type_synonym elem = nat

text \<open>
  A JavaScript string whose content the core works on (element text, context snippets, the
  prompt, what goes to the clipboard) is the list of its UTF-16 code units; \<open>utf16\<close> gives
  the code units of an ASCII literal.
\<close>

type_synonym js_string = "nat list"

definition utf16 :: "string \<Rightarrow> js_string" where
  "utf16 str = map of_char str"

text \<open>
  \<^verbatim>\<open>String.prototype.trim\<close> removes white space and line terminators at both ends
  (ECMAScript, TrimString): U+0009 to U+000D, U+0020, U+00A0, U+1680, U+2000 to U+200A,
  U+2028, U+2029, U+202F, U+205F, U+3000 and U+FEFF. All of them are single code units.
\<close>

definition isWhiteSpace :: "nat \<Rightarrow> bool" where
  "isWhiteSpace c =
     (c \<in> set [9, 10, 11, 12, 13, 32, 160, 5760, 8232, 8233, 8239, 8287, 12288, 65279]
      \<or> (8192 \<le> c \<and> c \<le> 8202))"

definition trim :: "js_string \<Rightarrow> js_string" where
  "trim s = rev (dropWhile isWhiteSpace (rev (dropWhile isWhiteSpace s)))"

text \<open>\<^verbatim>\<open>Array.prototype.join\<close>.\<close>

fun join :: "js_string \<Rightarrow> js_string list \<Rightarrow> js_string" where
  "join sep [] = []"
| "join sep [x] = x"
| "join sep (x # y # ys) = x @ sep @ join sep (y # ys)"

text \<open>The separator \<^verbatim>\<open>"\n\n"\<close>.\<close>

definition blankLine :: js_string where
  "blankLine = [10, 10]"

section \<open>Copy orchestrator\<close>

text \<open>
  \<^verbatim>\<open>copyContent\<close> (utils/copy-content.js) is awaited inside a \<^verbatim>\<open>try\<close>: a call resolves to a
  boolean or rejects.
\<close>

datatype js_error = JsError string

datatype write_outcome = Wrote bool | Throws js_error

text \<open>
  What a host can observe of one invocation, in order. A hook entry records that the call
  site \<^verbatim>\<open>options.onX?.(...)\<close> was reached with these arguments.
\<close>

datatype copy_event =
    BeforeCopy "elem list"
  | ContextRequest elem
  | ClipboardWrite js_string
  | CopySuccess "elem list" js_string
  | CopyError js_error
  | AfterCopy "elem list" bool

text \<open>
  The collaborators of one copy invocation. \<open>getElementContext e n\<close> is \<open>None\<close> when the
  promise rejects (\<^verbatim>\<open>Promise.allSettled\<close> absorbs it). \<open>innerText e\<close> is \<open>None\<close> when the
  element has no \<^verbatim>\<open>innerText\<close> property, \<open>textContent e\<close> is \<open>None\<close> for \<^verbatim>\<open>null\<close>.
  \<open>copyContent i text\<close> is what the \<open>i\<close>-th clipboard write of the invocation does
  (counted from 0). A hook is host code: it returns or throws (for the awaited
  \<^verbatim>\<open>onBeforeCopy\<close>: resolves or rejects), and \<open>hookThrows\<close> tells which from everything
  observed so far, the trace up to and including the call. An option that is not set is a
  hook that returns.
\<close>

record copy_env =
  getElementContext :: "elem \<Rightarrow> nat \<Rightarrow> js_string option"
  innerText :: "elem \<Rightarrow> js_string option"
  textContent :: "elem \<Rightarrow> js_string option"
  copyContent :: "nat \<Rightarrow> js_string \<Rightarrow> write_outcome"
  hookThrows :: "copy_event list \<Rightarrow> js_error option"

text \<open>The local variables of \<^verbatim>\<open>tryCopyWithFallback\<close>, the write counter and the trace.\<close>

record copy_run =
  didCopy :: bool
  copiedContent :: js_string
  writes :: nat
  trace :: "copy_event list"

definition extractElementTextContent :: "copy_env \<Rightarrow> elem \<Rightarrow> js_string" where
  "extractElementTextContent env element =
     (case innerText env element of
        Some t \<Rightarrow> t
      | None \<Rightarrow> (case textContent env element of Some t \<Rightarrow> t | None \<Rightarrow> []))"

definition createCombinedTextContent :: "copy_env \<Rightarrow> elem list \<Rightarrow> js_string" where
  "createCombinedTextContent env elements =
     join blankLine
       (filter (\<lambda>t. length t > 0)
          (map (\<lambda>element. trim (extractElementTextContent env element)) elements))"

text \<open>
  \<^verbatim>\<open>extraPrompt ? `${extraPrompt}\n\n${content}` : content\<close>: an absent and an empty prompt
  are both falsy.
\<close>

definition withPrompt :: "js_string option \<Rightarrow> js_string \<Rightarrow> js_string" where
  "withPrompt extraPrompt content =
     (case extraPrompt of
        Some p \<Rightarrow> (if p \<noteq> [] then p @ blankLine @ content else content)
      | None \<Rightarrow> content)"

text \<open>A hook call: the call site is reached, then the hook returns or throws.\<close>

definition callHook :: "copy_env \<Rightarrow> copy_event \<Rightarrow> copy_run \<Rightarrow> copy_run \<times> js_error option" where
  "callHook env ev r =
     (let r' = r\<lparr>trace := trace r @ [ev]\<rparr> in (r', hookThrows env (trace r')))"

text \<open>
  \<^verbatim>\<open>copiedContent = text; didCopy = await copyContent(text)\<close>. The second component is the
  exception when the write throws; \<open>copiedContent\<close> is already assigned then and
  \<open>didCopy\<close> is not.
\<close>

definition attemptWrite :: "copy_env \<Rightarrow> js_string \<Rightarrow> copy_run \<Rightarrow> copy_run \<times> js_error option" where
  "attemptWrite env text r =
     (let r' = r\<lparr>copiedContent := text, writes := writes r + 1,
                  trace := trace r @ [ClipboardWrite text]\<rparr>
      in case copyContent env (writes r) text of
           Wrote b \<Rightarrow> (r'\<lparr>didCopy := b\<rparr>, None)
         | Throws e \<Rightarrow> (r', Some e))"

text \<open>The plain-text block, which the source has three times (lines 538-546, 555-563).\<close>

definition plainTextWrite ::
  "copy_env \<Rightarrow> elem list \<Rightarrow> js_string option \<Rightarrow> copy_run \<Rightarrow> copy_run \<times> js_error option" where
  "plainTextWrite env elements extraPrompt r =
     (let plainTextContentOnly = createCombinedTextContent env elements
      in if length plainTextContentOnly > 0
         then attemptWrite env (withPrompt extraPrompt plainTextContentOnly) r
         else (r, None))"

definition elementSnippets :: "copy_env \<Rightarrow> nat \<Rightarrow> elem list \<Rightarrow> js_string list" where
  "elementSnippets env maxLines elements =
     List.map_filter
       (\<lambda>element. case getElementContext env element maxLines of
                    Some v \<Rightarrow> (if trim v \<noteq> [] then Some v else None)
                  | None \<Rightarrow> None)
       elements"

text \<open>
  The body of the \<^verbatim>\<open>try\<close> block (lines 512-551). It ends with the copy-success hook
  (line 550), so what that hook throws is caught like what a write throws.
\<close>

definition structuredPath ::
  "copy_env \<Rightarrow> nat \<Rightarrow> elem list \<Rightarrow> js_string option \<Rightarrow> copy_run \<Rightarrow> copy_run \<times> js_error option" where
  "structuredPath env maxLines elements extraPrompt r0 =
     (let r1 = r0\<lparr>trace := trace r0 @ map ContextRequest elements\<rparr>;
          snippets = elementSnippets env maxLines elements;
          (r2, thrown2) =
            (if length snippets > 0
             then attemptWrite env (withPrompt extraPrompt (join blankLine snippets)) r1
             else (r1, None))
      in case thrown2 of
           Some e \<Rightarrow> (r2, Some e)
         | None \<Rightarrow>
            (let (r3, thrown3) =
                   (if \<not> didCopy r2 then plainTextWrite env elements extraPrompt r2
                    else (r2, None))
             in case thrown3 of
                  Some e \<Rightarrow> (r3, Some e)
                | None \<Rightarrow>
                   (if didCopy r3
                    then callHook env (CopySuccess elements (copiedContent r3)) r3
                    else (r3, None))))"

text \<open>
  The \<^verbatim>\<open>catch\<close> block (lines 552-564): the copy-error hook, then the plain-text block once
  more. Neither is inside a \<^verbatim>\<open>try\<close>.
\<close>

definition catchBlock ::
  "copy_env \<Rightarrow> elem list \<Rightarrow> js_string option \<Rightarrow> js_error \<Rightarrow> copy_run \<Rightarrow> copy_run \<times> js_error option" where
  "catchBlock env elements extraPrompt e r =
     (let (r1, thrown) = callHook env (CopyError e) r
      in case thrown of
           Some e' \<Rightarrow> (r1, Some e')
         | None \<Rightarrow> plainTextWrite env elements extraPrompt r1)"

definition emptyRun :: copy_run where
  "emptyRun = \<lparr>didCopy = False, copiedContent = [], writes = 0, trace = []\<rparr>"

text \<open>The run once the before-copy hook has returned.\<close>

definition startRun :: "elem list \<Rightarrow> copy_run" where
  "startRun elements = emptyRun\<lparr>trace := [BeforeCopy elements]\<rparr>"

text \<open>
  \<^verbatim>\<open>tryCopyWithFallback\<close> (lines 503-569), entered with the trace \<open>before\<close> of what the
  caller has done already. The result is the trace and either the boolean the promise
  resolves to or the exception it rejects with.
\<close>

definition tryCopyFrom ::
  "copy_env \<Rightarrow> nat \<Rightarrow> elem list \<Rightarrow> js_string option \<Rightarrow> copy_event list \<Rightarrow>
     copy_event list \<times> (js_error + bool)" where
  "tryCopyFrom env maxLines elements extraPrompt before =
     (let (r0, thrown0) = callHook env (BeforeCopy elements) (emptyRun\<lparr>trace := before\<rparr>)
      in case thrown0 of
           Some e \<Rightarrow> (trace r0, Inl e)
         | None \<Rightarrow>
            (let (r1, thrown1) = structuredPath env maxLines elements extraPrompt r0;
                 (r2, thrown2) =
                   (case thrown1 of
                      Some e \<Rightarrow> catchBlock env elements extraPrompt e r1
                    | None \<Rightarrow> (r1, None))
             in case thrown2 of
                  Some e \<Rightarrow> (trace r2, Inl e)
                | None \<Rightarrow>
                   (let (r3, thrown3) = callHook env (AfterCopy elements (didCopy r2)) r2
                    in case thrown3 of
                         Some e \<Rightarrow> (trace r3, Inl e)
                       | None \<Rightarrow> (trace r3, Inr (didCopy r2)))))"

definition tryCopyWithFallback ::
  "copy_env \<Rightarrow> nat \<Rightarrow> elem list \<Rightarrow> js_string option \<Rightarrow> copy_event list \<times> (js_error + bool)" where
  "tryCopyWithFallback env maxLines elements extraPrompt =
     tryCopyFrom env maxLines elements extraPrompt []"

text \<open>\<^verbatim>\<open>copyElement(elements: Element | Element[])\<close> of the public API (lines 1989-2002).\<close>

datatype copy_arg = OneElement elem | ElementArray "elem list"

definition copyElementAPI ::
  "copy_env \<Rightarrow> nat \<Rightarrow> copy_arg \<Rightarrow> copy_event list \<times> (js_error + bool)" where
  "copyElementAPI env maxLines elements =
     (let elementsArray = (case elements of ElementArray es \<Rightarrow> es | OneElement e \<Rightarrow> [e])
      in if length elementsArray = 0 then ([], Inr False)
         else
           (let (r0, thrown0) = callHook env (BeforeCopy elementsArray) emptyRun
            in case thrown0 of
                 Some e \<Rightarrow> (trace r0, Inl e)
               | None \<Rightarrow>
                  (let (tr, res) = tryCopyFrom env maxLines elementsArray None (trace r0)
                   in case res of
                        Inl e \<Rightarrow> (tr, Inl e)
                      | Inr copied \<Rightarrow>
                         (let tr' = tr @ [AfterCopy elementsArray copied]
                          in case hookThrows env tr' of
                               Some e \<Rightarrow> (tr', Inl e)
                             | None \<Rightarrow> (tr', Inr copied)))))"

fun isAfterCopy :: "copy_event \<Rightarrow> bool" where
  "isAfterCopy (AfterCopy _ _) = True"
| "isAfterCopy _ = False"

fun isCopyError :: "copy_event \<Rightarrow> bool" where
  "isCopyError (CopyError _) = True"
| "isCopyError _ = False"

fun isCopySuccess :: "copy_event \<Rightarrow> bool" where
  "isCopySuccess (CopySuccess _ _) = True"
| "isCopySuccess _ = False"

fun isClipboardWrite :: "copy_event \<Rightarrow> bool" where
  "isClipboardWrite (ClipboardWrite _) = True"
| "isClipboardWrite _ = False"

text \<open>
  Example collaborators: one element with a context snippet and rendered text, hooks that
  return, and a clipboard to be chosen.
\<close>

definition demoEnv :: "(nat \<Rightarrow> js_string \<Rightarrow> write_outcome) \<Rightarrow> copy_env" where
  "demoEnv clip =
     \<lparr>getElementContext = (\<lambda>e n. Some (utf16 ''<button>'')),
      innerText = (\<lambda>e. Some (utf16 '' Save '')),
      textContent = (\<lambda>e. None),
      copyContent = clip,
      hookThrows = (\<lambda>tr. None)\<rparr>"

definition retryEnv :: copy_env where
  "retryEnv = demoEnv (\<lambda>i text. if i = 0 then Throws (JsError ''denied'') else Wrote True)"

text \<open>
  The same element without rendered text, a working clipboard, and a copy-success hook that
  throws.
\<close>

definition throwingHookEnv :: copy_env where
  "throwingHookEnv =
     (demoEnv (\<lambda>i text. Wrote True))
       \<lparr>innerText := (\<lambda>e. Some []),
        hookThrows := (\<lambda>tr. if tr \<noteq> [] \<and> isCopySuccess (last tr)
                            then Some (JsError ''hook'') else None)\<rparr>"

section \<open>Interaction state machine: data\<close>

text \<open>
  A coordinate is a JavaScript number, a double; the model holds its value, a real. On
  doubles \<^verbatim>\<open>+\<close>, \<^verbatim>\<open>-\<close> and \<^verbatim>\<open>/\<close> round their result, so the three are parameters of the
  model (\<open>jsAdd\<close>, \<open>jsSub\<close>, \<open>jsDiv\<close> below) and nothing is assumed about them; comparison,
  \<^verbatim>\<open>Math.abs\<close>, \<^verbatim>\<open>Math.min\<close> and negation are exact. Times are integer milliseconds
  (\<^verbatim>\<open>Date.now()\<close>), on which the arithmetic of doubles is exact.
\<close>

record rect =
  rectX :: real
  rectY :: real
  rectWidth :: real
  rectHeight :: real

text \<open>
  A keyboard event: the properties the listeners read, and the verdicts of the two helpers
  that look at the event only (\<^verbatim>\<open>isEventFromOverlay\<close>, \<^verbatim>\<open>isKeyboardEventTriggeredByInput\<close>).
\<close>

record key_event =
  key :: string
  code :: string
  repeat :: bool
  metaKey :: bool
  ctrlKey :: bool
  shiftKey :: bool
  altKey :: bool
  fromOverlay :: bool
  triggeredByInput :: bool

text \<open>\<^verbatim>\<open>options.activationKey\<close>; the modifier fields hold \<^verbatim>\<open>!!metaKey\<close> and so on.\<close>

record activation_key =
  akKey :: "string option"
  akMetaKey :: bool
  akCtrlKey :: bool
  akShiftKey :: bool
  akAltKey :: bool

record options =
  keyHoldDuration :: int
  allowActivationInsideInput :: bool
  activationShortcut :: "(key_event \<Rightarrow> bool) option"
  activationKey :: "activation_key option"

text \<open>
  What \<^verbatim>\<open>core.tsx\<close> imports and this repository slice does not contain: the constants of
  \<^verbatim>\<open>constants.js\<close> and the helpers of \<^verbatim>\<open>utils/hotkey.js\<close> and \<^verbatim>\<open>utils/is-c-like-key.js\<close>.
  They are parameters of the model, and so is the arithmetic of doubles.
\<close>

record externals =
  OFFSCREEN_POSITION :: real
  DRAG_THRESHOLD_PX :: real
  BLUR_DEACTIVATION_THRESHOLD_MS :: int
  AUTO_SCROLL_EDGE_THRESHOLD_PX :: real
  AUTO_SCROLL_SPEED_PX :: real
  MODIFIER_KEYS :: "string list"
  isTargetKeyCombination :: "key_event \<Rightarrow> options \<Rightarrow> bool"
  keyMatchesCode :: "string \<Rightarrow> string \<Rightarrow> bool"
  isCLikeKey :: "string \<Rightarrow> string \<Rightarrow> bool"
  jsAdd :: "real \<Rightarrow> real \<Rightarrow> real"
  jsSub :: "real \<Rightarrow> real \<Rightarrow> real"
  jsDiv :: "real \<Rightarrow> real \<Rightarrow> real"

text \<open>
  The page as the geometry adapters see it: \<^verbatim>\<open>getElementAtPosition\<close>, the strict and the
  loose rectangle query (both called with \<^verbatim>\<open>isValidGrabbableElement\<close>), the two bounds
  helpers, attachment, and the window size.
\<close>

record dom =
  getElementAtPosition :: "real \<Rightarrow> real \<Rightarrow> elem option"
  getElementsInDrag :: "rect \<Rightarrow> elem list"
  getElementsInDragLoose :: "rect \<Rightarrow> elem list"
  getBoundingClientRect :: "elem \<Rightarrow> rect"
  createElementBounds :: "elem \<Rightarrow> rect"
  documentContains :: "elem \<Rightarrow> bool"
  innerWidth :: real
  innerHeight :: real

text \<open>
  The callbacks the state machine hands to \<^verbatim>\<open>setTimeout\<close> (the hold timer, the spam-guard
  timer) and to \<^verbatim>\<open>requestAnimationFrame\<close> (autoscroll, progress animation). The expiry timers
  of labels and grabbed boxes and the debounce of the native selection belong to the
  presentation state that is left out.
\<close>

datatype timeout_cb = HoldElapsed | SpamGuard

datatype frame_cb = AutoScrollFrame | ProgressFrame int

datatype copy_target = SingleElement elem | MultipleElements "elem list"

text \<open>
  Calls that leave the state machine, in order: host hooks, geometry queries made by
  \<^verbatim>\<open>handlePointerUp\<close>, scrolling, the agent manager, and a copy queued behind
  \<^verbatim>\<open>getNearestComponentName(...).then(...)\<close> (the flag: \<^verbatim>\<open>deactivateRenderer\<close> follows it).
  The listeners have no \<^verbatim>\<open>try\<close> of their own; the host hooks they call (\<^verbatim>\<open>onActivate\<close>,
  \<^verbatim>\<open>onDeactivate\<close>, \<^verbatim>\<open>onDragStart\<close>, \<^verbatim>\<open>onDragEnd\<close>) are taken to return. Where the code
  handles exceptions, in the copy orchestrator, a hook may throw.
\<close>

datatype effect =
    OnActivate
  | OnDeactivate
  | OnDragStart real real
  | OnDragEnd "elem list" rect
  | ElementAtPoint real real
  | ElementsInDrag rect
  | ElementsInDragLoose rect
  | ScrollBy real real
  | AbortAllSessions
  | StartSession elem js_string
  | CopyScheduled copy_target "js_string option" bool

text \<open>
  The signals and plain variables of the instance that the handlers below read or write,
  and the part of the browser they act on: the clock, the scroll position, the table of
  pending timeouts (callback and due time), the table of pending animation frames, and the
  next handle. Presentation-only signals (labels, grabbed boxes, copy offsets, theme,
  source location, native text selection, focus restore, the last grabbed element that
  the hover effect of lines 770-782 compares with the target) are left out: no guard of a
  modelled handler reads them. \<open>dragBounds\<close> is the value the memo of that name holds
  (lines 682-695).
\<close>

record state =
  isHoldingKeys :: bool
  mouseX :: real
  mouseY :: real
  detectedElement :: "elem option"
  isDragging :: bool
  dragStartX :: real
  dragStartY :: real
  isCopying :: bool
  progressStartTime :: "int option"
  isActivated :: bool
  isToggleMode :: bool
  didJustDrag :: bool
  isInputMode :: bool
  inputText :: js_string
  isTouchMode :: bool
  isToggleFrozen :: bool
  isInputExpanded :: bool
  frozenElement :: "elem option"
  dragBounds :: "rect option"
  hasAgentProvider :: bool
  holdTimerId :: "nat option"
  activationTimestamp :: "int option"
  progressAnimationId :: "nat option"
  keydownSpamTimerId :: "nat option"
  autoScrollAnimationId :: "nat option"
  cursorStyleElement :: "string option"
  userSelect :: string
  now :: int
  scrollX :: real
  scrollY :: real
  timeouts :: "nat \<rightharpoonup> timeout_cb \<times> int"
  frames :: "nat \<rightharpoonup> frame_cb"
  nextHandle :: nat
  agentProcessing :: bool
  effects :: "effect list"

text \<open>
  The instance as \<^verbatim>\<open>createRoot\<close> builds it. Timer and frame handles are positive integers,
  so the first one is 1.
\<close>

definition initialState :: "externals \<Rightarrow> bool \<Rightarrow> state" where
  "initialState ext agentProvider =
     \<lparr>isHoldingKeys = False, mouseX = OFFSCREEN_POSITION ext, mouseY = OFFSCREEN_POSITION ext,
      detectedElement = None, isDragging = False, dragStartX = OFFSCREEN_POSITION ext,
      dragStartY = OFFSCREEN_POSITION ext, isCopying = False,
      progressStartTime = None, isActivated = False, isToggleMode = False,
      didJustDrag = False, isInputMode = False, inputText = [], isTouchMode = False,
      isToggleFrozen = False, isInputExpanded = False, frozenElement = None,
      dragBounds = None, hasAgentProvider = agentProvider, holdTimerId = None, activationTimestamp = None,
      progressAnimationId = None, keydownSpamTimerId = None, autoScrollAnimationId = None,
      cursorStyleElement = None, userSelect = [], now = 0, scrollX = 0, scrollY = 0,
      timeouts = Map.empty, frames = Map.empty, nextHandle = 1, agentProcessing = False,
      effects = []\<rparr>"

section \<open>Interaction state machine: primitives\<close>

definition emit :: "effect \<Rightarrow> state \<Rightarrow> state" where
  "emit e s = s\<lparr>effects := effects s @ [e]\<rparr>"

definition setTimeout :: "timeout_cb \<Rightarrow> int \<Rightarrow> state \<Rightarrow> nat \<times> state" where
  "setTimeout cb delay s =
     (nextHandle s,
      s\<lparr>timeouts := (timeouts s)(nextHandle s \<mapsto> (cb, now s + delay)),
        nextHandle := Suc (nextHandle s)\<rparr>)"

definition clearTimeout :: "nat \<Rightarrow> state \<Rightarrow> state" where
  "clearTimeout h s = s\<lparr>timeouts := (timeouts s)(h := None)\<rparr>"

definition requestAnimationFrame :: "frame_cb \<Rightarrow> state \<Rightarrow> nat \<times> state" where
  "requestAnimationFrame cb s =
     (nextHandle s,
      s\<lparr>frames := (frames s)(nextHandle s \<mapsto> cb), nextHandle := Suc (nextHandle s)\<rparr>)"

definition cancelAnimationFrame :: "nat \<Rightarrow> state \<Rightarrow> state" where
  "cancelAnimationFrame h s = s\<lparr>frames := (frames s)(h := None)\<rparr>"

text \<open>\<^verbatim>\<open>if (id) ...\<close>: a handle is truthy when it is set and not 0.\<close>

definition truthy :: "nat option \<Rightarrow> bool" where
  "truthy h = (case h of Some n \<Rightarrow> n \<noteq> 0 | None \<Rightarrow> False)"

definition isRendererActive :: "state \<Rightarrow> bool" where
  "isRendererActive s = (isActivated s \<and> \<not> isCopying s)"

definition targetElement :: "state \<Rightarrow> elem option" where
  "targetElement s = (if \<not> isRendererActive s \<or> isDragging s then None else detectedElement s)"

text \<open>
  The effect of lines 631-636 makes a target, once there is one, the frozen element. It
  runs inside the write that changes the memo \<open>targetElement\<close>, before the handler
  continues: \<open>writeSignal\<close> is such a write to one of the signals the memo reads. A write
  after which there is no target runs the effect without consequence, so only the writes
  that can produce a target go through \<open>writeSignal\<close>.
\<close>

definition writeSignal :: "(state \<Rightarrow> state) \<Rightarrow> state \<Rightarrow> state" where
  "writeSignal setter s =
     (let s' = setter s
      in if targetElement s' \<noteq> targetElement s
         then (case targetElement s' of
                 Some element \<Rightarrow> s'\<lparr>frozenElement := Some element\<rparr>
               | None \<Rightarrow> s')
         else s')"

text \<open>Lines 323-330; the four flags are top, bottom, left, right.\<close>

definition getAutoScrollDirection ::
  "externals \<Rightarrow> dom \<Rightarrow> real \<Rightarrow> real \<Rightarrow> bool \<times> bool \<times> bool \<times> bool" where
  "getAutoScrollDirection ext d clientX clientY =
     (clientY < AUTO_SCROLL_EDGE_THRESHOLD_PX ext,
      clientY > jsSub ext (innerHeight d) (AUTO_SCROLL_EDGE_THRESHOLD_PX ext),
      clientX < AUTO_SCROLL_EDGE_THRESHOLD_PX ext,
      clientX > jsSub ext (innerWidth d) (AUTO_SCROLL_EDGE_THRESHOLD_PX ext))"

definition stopProgressAnimation :: "state \<Rightarrow> state" where
  "stopProgressAnimation s =
     (case progressAnimationId s of
        Some h \<Rightarrow> (cancelAnimationFrame h s)\<lparr>progressAnimationId := None\<rparr>
      | None \<Rightarrow> s)\<lparr>progressStartTime := None\<rparr>"

text \<open>
  \<^verbatim>\<open>animateProgress\<close> (lines 981-997). While copying, the progress is
  \<^verbatim>\<open>Math.min(1 - Math.exp(-elapsed / duration), 0.95)\<close>, which is below 1 unless it is
  \<^verbatim>\<open>NaN\<close>, and it is \<^verbatim>\<open>NaN\<close> exactly for \<^verbatim>\<open>0 / 0\<close>; otherwise the progress is 1. So the next
  frame is requested exactly when copying and not \<^verbatim>\<open>0 / 0\<close>.
\<close>

definition animateProgress :: "int \<Rightarrow> state \<Rightarrow> state" where
  "animateProgress animationDuration s =
     (case progressStartTime s of
        None \<Rightarrow> s
      | Some currentStartTime \<Rightarrow>
          (let elapsedTime = now s - currentStartTime
           in if isCopying s \<and> \<not> (elapsedTime = 0 \<and> animationDuration = 0)
              then (let (h, s') = requestAnimationFrame (ProgressFrame animationDuration) s
                    in s'\<lparr>progressAnimationId := Some h\<rparr>)
              else s))"

definition startProgressAnimation :: "options \<Rightarrow> state \<Rightarrow> state" where
  "startProgressAnimation opts s =
     animateProgress (keyHoldDuration opts) (s\<lparr>progressStartTime := Some (now s)\<rparr>)"

definition stopAutoScroll :: "state \<Rightarrow> state" where
  "stopAutoScroll s =
     (case autoScrollAnimationId s of
        Some h \<Rightarrow> (cancelAnimationFrame h s)\<lparr>autoScrollAnimationId := None\<rparr>
      | None \<Rightarrow> s)"

text \<open>
  The closure \<^verbatim>\<open>scroll\<close> of \<^verbatim>\<open>startAutoScroll\<close> (lines 1011-1034): \<open>scrollWindow\<close> is
  its four \<^verbatim>\<open>window.scrollBy\<close> calls, \<open>isNearEdge\<close> the disjunction of the four flags.
\<close>

definition scrollWindow :: "externals \<Rightarrow> bool \<times> bool \<times> bool \<times> bool \<Rightarrow> state \<Rightarrow> state" where
  "scrollWindow ext direction s =
     (case direction of
        (dirTop, dirBottom, dirLeft, dirRight) \<Rightarrow>
          (let s1 = (if dirTop then emit (ScrollBy 0 (- AUTO_SCROLL_SPEED_PX ext)) s else s);
               s2 = (if dirBottom then emit (ScrollBy 0 (AUTO_SCROLL_SPEED_PX ext)) s1 else s1);
               s3 = (if dirLeft then emit (ScrollBy (- AUTO_SCROLL_SPEED_PX ext) 0) s2 else s2)
           in if dirRight then emit (ScrollBy (AUTO_SCROLL_SPEED_PX ext) 0) s3 else s3))"

definition isNearEdge :: "bool \<times> bool \<times> bool \<times> bool \<Rightarrow> bool" where
  "isNearEdge direction =
     (case direction of (dirTop, dirBottom, dirLeft, dirRight) \<Rightarrow>
        dirTop \<or> dirBottom \<or> dirLeft \<or> dirRight)"

definition scroll :: "externals \<Rightarrow> dom \<Rightarrow> state \<Rightarrow> state" where
  "scroll ext d s =
     (if \<not> isDragging s then stopAutoScroll s
      else
        (let direction = getAutoScrollDirection ext d (mouseX s) (mouseY s);
             s1 = scrollWindow ext direction s
         in if isNearEdge direction
            then (let (h, s2) = requestAnimationFrame AutoScrollFrame s1
                  in s2\<lparr>autoScrollAnimationId := Some h\<rparr>)
            else s1\<lparr>autoScrollAnimationId := None\<rparr>))"

definition startAutoScroll :: "externals \<Rightarrow> dom \<Rightarrow> state \<Rightarrow> state" where
  "startAutoScroll ext d s = scroll ext d s"

text \<open>Lines 1046-1052.\<close>

definition activateRenderer :: "state \<Rightarrow> state" where
  "activateRenderer s =
     emit OnActivate
       (writeSignal (\<lambda>s1. s1\<lparr>isActivated := True\<rparr>)
          ((stopProgressAnimation s)\<lparr>activationTimestamp := Some (now s)\<rparr>))"

text \<open>
  \<^verbatim>\<open>if (holdTimerId) window.clearTimeout(holdTimerId)\<close> and the same for the spam-guard
  timer (lines 1068-1069, 1437, 1849-1850). The variable keeps its value.
\<close>

definition clearHoldTimer :: "state \<Rightarrow> state" where
  "clearHoldTimer s =
     (case holdTimerId s of
        Some h \<Rightarrow> (if truthy (Some h) then clearTimeout h s else s)
      | None \<Rightarrow> s)"

definition clearSpamTimer :: "state \<Rightarrow> state" where
  "clearSpamTimer s =
     (case keydownSpamTimerId s of
        Some h \<Rightarrow> (if truthy (Some h) then clearTimeout h s else s)
      | None \<Rightarrow> s)"

text \<open>Lines 1054-1081.\<close>

definition deactivateRenderer :: "state \<Rightarrow> state" where
  "deactivateRenderer s =
     (let s1 = s\<lparr>isToggleMode := False, isHoldingKeys := False, isActivated := False,
                 isInputMode := False, inputText := [], isToggleFrozen := False,
                 isInputExpanded := False, frozenElement := None\<rparr>;
          s2 = (if isDragging s1 then s1\<lparr>isDragging := False, userSelect := []\<rparr> else s1);
          s3 = clearSpamTimer (clearHoldTimer s2);
          s4 = stopProgressAnimation (stopAutoScroll s3)
      in emit OnDeactivate (s4\<lparr>activationTimestamp := None\<rparr>))"

section \<open>Interaction state machine: handlers\<close>

text \<open>\<^verbatim>\<open>String.prototype.toLowerCase\<close> on bytes: A-Z and the upper-case letters of Latin-1.\<close>

definition lowerChar :: "char \<Rightarrow> char" where
  "lowerChar c =
     (let n = (of_char c :: nat)
      in if (65 \<le> n \<and> n \<le> 90) \<or> (192 \<le> n \<and> n \<le> 222 \<and> n \<noteq> 215) then char_of (n + 32) else c)"

definition toLowerCase :: "string \<Rightarrow> string" where
  "toLowerCase str = map lowerChar str"

text \<open>
  \<^verbatim>\<open>executeCopyOperation\<close> (lines 431-483) in its two synchronous halves: up to the
  \<^verbatim>\<open>await\<close>, and the \<^verbatim>\<open>finally\<close> callback. The operation between them is the copy
  orchestrator above. The label instance it shows is presentation state.
\<close>

definition executeCopyOperation_begin :: "options \<Rightarrow> state \<Rightarrow> state" where
  "executeCopyOperation_begin opts s = startProgressAnimation opts (s\<lparr>isCopying := True\<rparr>)"

definition executeCopyOperation_finally :: "state \<Rightarrow> state" where
  "executeCopyOperation_finally s =
     (let s1 = stopProgressAnimation (writeSignal (\<lambda>s0. s0\<lparr>isCopying := False\<rparr>) s)
      in if isToggleMode s1 then deactivateRenderer s1 else s1)"

text \<open>Lines 645-680.\<close>

definition calculateDragDistance :: "externals \<Rightarrow> state \<Rightarrow> real \<Rightarrow> real \<Rightarrow> real \<times> real" where
  "calculateDragDistance ext s endX endY =
     (let endPageX = jsAdd ext endX (scrollX s); endPageY = jsAdd ext endY (scrollY s)
      in (\<bar>jsSub ext endPageX (dragStartX s)\<bar>, \<bar>jsSub ext endPageY (dragStartY s)\<bar>))"

definition calculateDragRectangle :: "externals \<Rightarrow> state \<Rightarrow> real \<Rightarrow> real \<Rightarrow> rect" where
  "calculateDragRectangle ext s endX endY =
     (let endPageX = jsAdd ext endX (scrollX s); endPageY = jsAdd ext endY (scrollY s);
          dragPageX = min (dragStartX s) endPageX;
          dragPageY = min (dragStartY s) endPageY;
          dragWidth = \<bar>jsSub ext endPageX (dragStartX s)\<bar>;
          dragHeight = \<bar>jsSub ext endPageY (dragStartY s)\<bar>
      in \<lparr>rectX = jsSub ext dragPageX (scrollX s), rectY = jsSub ext dragPageY (scrollY s),
          rectWidth = dragWidth, rectHeight = dragHeight\<rparr>)"

text \<open>The bodies of the memos \<^verbatim>\<open>isDraggingBeyondThreshold\<close> and \<^verbatim>\<open>dragBounds\<close> (lines 655-695).\<close>

definition isDraggingBeyondThreshold :: "externals \<Rightarrow> state \<Rightarrow> bool" where
  "isDraggingBeyondThreshold ext s =
     (if \<not> isDragging s then False
      else (let (distX, distY) = calculateDragDistance ext s (mouseX s) (mouseY s)
            in distX > DRAG_THRESHOLD_PX ext \<or> distY > DRAG_THRESHOLD_PX ext))"

definition computeDragBounds :: "externals \<Rightarrow> state \<Rightarrow> rect option" where
  "computeDragBounds ext s =
     (if \<not> isDraggingBeyondThreshold ext s then None
      else Some (calculateDragRectangle ext s (mouseX s) (mouseY s)))"

text \<open>
  Lines 1247-1276. The throttled element lookup it queues with \<^verbatim>\<open>onIdle\<close> arrives as the
  event \<open>ElementDetected\<close> below.
\<close>

definition handlePointerMove :: "externals \<Rightarrow> dom \<Rightarrow> real \<Rightarrow> real \<Rightarrow> state \<Rightarrow> state" where
  "handlePointerMove ext d clientX clientY s =
     (if isInputMode s \<or> isToggleFrozen s then s
      else
        (let s1 = s\<lparr>mouseX := clientX, mouseY := clientY\<rparr>
         in if isDragging s1
            then
              (let direction = getAutoScrollDirection ext d clientX clientY
               in if isNearEdge direction \<and> autoScrollAnimationId s1 = None
                  then startAutoScroll ext d s1
                  else if \<not> isNearEdge direction \<and> autoScrollAnimationId s1 \<noteq> None
                  then stopAutoScroll s1
                  else s1)
            else s1))"

text \<open>Lines 1278-1291: the result is \<^verbatim>\<open>didHandle\<close> and the new state.\<close>

definition handlePointerDown :: "externals \<Rightarrow> real \<Rightarrow> real \<Rightarrow> state \<Rightarrow> bool \<times> state" where
  "handlePointerDown ext clientX clientY s =
     (if \<not> isRendererActive s \<or> isCopying s then (False, s)
      else
        (let startX = jsAdd ext clientX (scrollX s); startY = jsAdd ext clientY (scrollY s)
         in (True,
             emit (OnDragStart startX startY)
               (s\<lparr>isDragging := True, dragStartX := startX, dragStartY := startY,
                  userSelect := ''none''\<rparr>))))"

text \<open>
  Lines 1293-1373. \<open>endDrag\<close> is what \<^verbatim>\<open>handlePointerUp\<close> does first, whichever way the
  gesture is resolved (lines 1302-1304).
\<close>

definition endDrag :: "state \<Rightarrow> state" where
  "endDrag s =
     (stopAutoScroll (writeSignal (\<lambda>s0. s0\<lparr>isDragging := False\<rparr>) s))\<lparr>userSelect := []\<rparr>"

definition handlePointerUp :: "externals \<Rightarrow> dom \<Rightarrow> real \<Rightarrow> real \<Rightarrow> state \<Rightarrow> state" where
  "handlePointerUp ext d clientX clientY s =
     (if \<not> isDragging s then s
      else
        (let (distX, distY) = calculateDragDistance ext s clientX clientY;
             wasDragGesture = (distX > DRAG_THRESHOLD_PX ext \<or> distY > DRAG_THRESHOLD_PX ext);
             s1 = endDrag s
         in if wasDragGesture
            then
              (let s2 = s1\<lparr>didJustDrag := True\<rparr>;
                   dragRect = calculateDragRectangle ext s2 clientX clientY;
                   elements = getElementsInDrag d dragRect;
                   s3 = emit (ElementsInDrag dragRect) s2;
                   (selectedElements, s4) =
                     (if length elements > 0 then (elements, s3)
                      else (getElementsInDragLoose d dragRect,
                            emit (ElementsInDragLoose dragRect) s3))
               in case selectedElements of
                    [] \<Rightarrow> s4
                  | firstElement # _ \<Rightarrow>
                      (let s5 = emit (OnDragEnd selectedElements dragRect) s4;
                           firstElementRect = getBoundingClientRect d firstElement
                       in if hasAgentProvider s5
                          then
                            (let centerX = jsAdd ext (rectX firstElementRect)
                                             (jsDiv ext (rectWidth firstElementRect) 2);
                                 centerY = jsAdd ext (rectY firstElementRect)
                                             (jsDiv ext (rectHeight firstElementRect) 2)
                             in s5\<lparr>mouseX := centerX, mouseY := centerY,
                                   frozenElement := Some firstElement, isToggleMode := True,
                                   isToggleFrozen := True, isInputExpanded := True,
                                   isInputMode := True\<rparr>)
                          else emit (CopyScheduled (MultipleElements selectedElements) None False) s5))
            else
              (let s2 = emit (ElementAtPoint clientX clientY) s1
               in case getElementAtPosition d clientX clientY of
                    None \<Rightarrow> s2
                  | Some element \<Rightarrow>
                      emit (CopyScheduled (SingleElement element) None False) s2)))"

text \<open>Lines 1116-1163; \<^verbatim>\<open>frozenElement() || targetElement()\<close>.\<close>

definition frozenOrTarget :: "state \<Rightarrow> elem option" where
  "frozenOrTarget s = (case frozenElement s of Some e \<Rightarrow> Some e | None \<Rightarrow> targetElement s)"

definition handleInputSubmit :: "externals \<Rightarrow> dom \<Rightarrow> state \<Rightarrow> state" where
  "handleInputSubmit ext d s =
     (let prompt = (if isInputMode s then trim (inputText s) else [])
      in case frozenOrTarget s of
           None \<Rightarrow> deactivateRenderer s
         | Some element \<Rightarrow>
             (let bounds = createElementBounds d element;
                  currentX = jsAdd ext (rectX bounds) (jsDiv ext (rectWidth bounds) 2);
                  currentY = jsAdd ext (rectY bounds) (jsDiv ext (rectHeight bounds) 2);
                  s1 = s\<lparr>mouseX := currentX, mouseY := currentY\<rparr>
              in if hasAgentProvider s1 \<and> prompt \<noteq> []
                 then emit (StartSession element prompt) (deactivateRenderer s1)
                 else emit (CopyScheduled (SingleElement element)
                              (if prompt \<noteq> [] then Some prompt else None) True)
                        (s1\<lparr>isInputMode := False, inputText := []\<rparr>)))"

definition handleInputCancel :: "state \<Rightarrow> state" where
  "handleInputCancel s = (if \<not> isInputMode s then s else deactivateRenderer s)"

text \<open>Lines 1171-1184; the copy offsets it stores are presentation state.\<close>

definition handleToggleExpand :: "state \<Rightarrow> state" where
  "handleToggleExpand s =
     s\<lparr>isToggleMode := True, isToggleFrozen := True, isInputExpanded := True, isInputMode := True\<rparr>"

text \<open>
  Lines 1222-1245, with what it reads of the native selection passed in: the selected
  elements and the position it computes from them.
\<close>

definition handleNativeSelectionEnter :: "elem list \<Rightarrow> real \<Rightarrow> real \<Rightarrow> state \<Rightarrow> state" where
  "handleNativeSelectionEnter elements currentX currentY s =
     (if length elements = 0 then s
      else
        (activateRenderer
           (s\<lparr>mouseX := currentX, mouseY := currentY, isToggleMode := True,
              isToggleFrozen := True, isInputExpanded := True\<rparr>))\<lparr>isInputMode := True\<rparr>)"

text \<open>
  The \<^verbatim>\<open>onAbort\<close> callback given to the agent manager (lines 1086-1106 and 2059-2079):
  the session's element, \<^verbatim>\<open>session.position.x\<close> and \<^verbatim>\<open>session.context.prompt\<close>.
\<close>

definition onAbort ::
  "externals \<Rightarrow> dom \<Rightarrow> elem option \<Rightarrow> real \<Rightarrow> js_string \<Rightarrow> state \<Rightarrow> state" where
  "onAbort ext d element positionX prompt s =
     (case element of
        None \<Rightarrow> s
      | Some el \<Rightarrow>
          (if documentContains d el
           then
             (let r = getBoundingClientRect d el;
                  centerY = jsAdd ext (rectY r) (jsDiv ext (rectHeight r) 2);
                  s1 = s\<lparr>mouseX := positionX, mouseY := centerY, frozenElement := Some el,
                         inputText := prompt, isInputExpanded := True, isInputMode := True,
                         isToggleMode := True, isToggleFrozen := True\<rparr>
              in if \<not> isActivated s1 then activateRenderer s1 else s1)
           else s))"

section \<open>Interaction state machine: listeners\<close>

text \<open>
  The \<^verbatim>\<open>keydown\<close> listener (lines 1378-1521). \<^verbatim>\<open>preventDefault\<close>, \<^verbatim>\<open>stopPropagation\<close>, the
  microphone toggle and the open-file shortcut change nothing the model holds; their
  branches keep the control flow of the source. The agent manager is outside the core:
  \<open>agentProcessing\<close> is what \<^verbatim>\<open>agentManager.isProcessing()\<close> answers, and an abort it is
  asked for comes back as the event \<open>AgentAbort\<close>. \<open>enterInputMode\<close> is the body of the
  Enter branch (lines 1418-1442), without the copy offsets; \<open>armTimers\<close> is the end of the
  listener (lines 1493-1518), where the spam-guard timer (\<open>armSpamGuard\<close>, lines 1497-1502)
  and the hold timer (\<open>armHoldTimer\<close>, lines 1508-1518) are set.
\<close>

definition enterInputMode :: "state \<Rightarrow> state" where
  "enterInputMode s =
     (let s1 = s\<lparr>isToggleMode := True, isToggleFrozen := True, isInputExpanded := True\<rparr>;
          s2 = (case keydownSpamTimerId s1 of
                  Some h \<Rightarrow> (clearTimeout h s1)\<lparr>keydownSpamTimerId := None\<rparr>
                | None \<Rightarrow> s1);
          s3 = (if \<not> isActivated s2 then activateRenderer (clearHoldTimer s2) else s2)
      in s3\<lparr>isInputMode := True\<rparr>)"

definition armSpamGuard :: "state \<Rightarrow> state" where
  "armSpamGuard s =
     (let s1 = (case keydownSpamTimerId s of Some h \<Rightarrow> clearTimeout h s | None \<Rightarrow> s);
          (h, s2) = setTimeout SpamGuard 200 s1
      in s2\<lparr>keydownSpamTimerId := Some h\<rparr>)"

definition armHoldTimer :: "options \<Rightarrow> state \<Rightarrow> state" where
  "armHoldTimer opts s =
     (let s1 = (case holdTimerId s of Some h \<Rightarrow> clearTimeout h s | None \<Rightarrow> s);
          s2 = (if \<not> isHoldingKeys s1 then s1\<lparr>isHoldingKeys := True\<rparr> else s1);
          (h, s3) = setTimeout HoldElapsed (keyHoldDuration opts) s2
      in s3\<lparr>holdTimerId := Some h\<rparr>)"

definition armTimers :: "options \<Rightarrow> key_event \<Rightarrow> state \<Rightarrow> state" where
  "armTimers opts ev s =
     (if isActivated s then
        (if isToggleMode s then s
         else if repeat ev then s
         else armSpamGuard s)
      else if isHoldingKeys s \<and> repeat ev then s
      else armHoldTimer opts s)"

definition keydown :: "externals \<Rightarrow> options \<Rightarrow> key_event \<Rightarrow> state \<Rightarrow> state" where
  "keydown ext opts ev s =
     (if isInputMode s \<or> fromOverlay ev then
        (if key ev = ''Escape'' \<and> agentProcessing s then emit AbortAllSessions s else s)
      else if key ev = ''Escape'' \<and> agentProcessing s then emit AbortAllSessions s
      else if key ev = ''Escape'' \<and> isHoldingKeys s then deactivateRenderer s
      else if key ev = ''Enter'' \<and> isHoldingKeys s \<and> \<not> isInputMode s then enterInputMode s
      else if toLowerCase (key ev) = ''o'' \<and> \<not> isInputMode s
              \<and> isActivated s \<and> (metaKey ev \<or> ctrlKey ev) then s
      else if \<not> allowActivationInsideInput opts \<and> triggeredByInput ev then s
      else
        (let nonTarget = \<not> isTargetKeyCombination ext ev opts;
             s1 = (if nonTarget \<and> isActivated s \<and> \<not> isToggleMode s \<and> (metaKey ev \<or> ctrlKey ev)
                      \<and> key ev \<notin> set (MODIFIER_KEYS ext) \<and> key ev \<noteq> ''Enter''
                   then deactivateRenderer s else s)
         in if nonTarget \<and> key ev \<noteq> ''Enter'' then s1 else armTimers opts ev s1))"

text \<open>The \<^verbatim>\<open>keyup\<close> listener (lines 1523-1590).\<close>

definition hasCustomShortcut :: "options \<Rightarrow> bool" where
  "hasCustomShortcut opts = (activationShortcut opts \<noteq> None \<or> activationKey opts \<noteq> None)"

definition getRequiredModifiers :: "options \<Rightarrow> bool \<times> bool \<times> bool \<times> bool" where
  "getRequiredModifiers opts =
     (case activationKey opts of
        Some ak \<Rightarrow> (akMetaKey ak, akCtrlKey ak, akShiftKey ak, akAltKey ak)
      | None \<Rightarrow> (True, True, False, False))"

definition isReleasingModifier :: "options \<Rightarrow> key_event \<Rightarrow> bool" where
  "isReleasingModifier opts ev =
     (let (reqMeta, reqCtrl, reqShift, reqAlt) = getRequiredModifiers opts
      in if reqMeta \<or> reqCtrl then \<not> metaKey ev \<and> \<not> ctrlKey ev
         else (reqShift \<and> \<not> shiftKey ev) \<or> (reqAlt \<and> \<not> altKey ev))"

definition isReleasingActivationKey :: "externals \<Rightarrow> options \<Rightarrow> key_event \<Rightarrow> bool" where
  "isReleasingActivationKey ext opts ev =
     (case activationShortcut opts of
        Some shortcut \<Rightarrow> \<not> shortcut ev
      | None \<Rightarrow>
          (case activationKey opts of
             Some ak \<Rightarrow>
               (case akKey ak of
                  Some k \<Rightarrow>
                    (if k \<noteq> []
                     then toLowerCase (key ev) = toLowerCase k \<or> keyMatchesCode ext k (code ev)
                     else False)
                | None \<Rightarrow> False)
           | None \<Rightarrow> isCLikeKey ext (key ev) (code ev)))"

definition keyup :: "externals \<Rightarrow> options \<Rightarrow> key_event \<Rightarrow> state \<Rightarrow> state" where
  "keyup ext opts ev s =
     (if \<not> isHoldingKeys s \<and> \<not> isActivated s then s
      else if isInputMode s then s
      else if isActivated s then
        (if isReleasingModifier opts ev then
           (if isToggleMode s then s else deactivateRenderer s)
         else if \<not> hasCustomShortcut opts \<and> isReleasingActivationKey ext opts ev
                 \<and> keydownSpamTimerId s \<noteq> None then
           (case keydownSpamTimerId s of
              Some h \<Rightarrow> (clearTimeout h s)\<lparr>keydownSpamTimerId := None\<rparr>
            | None \<Rightarrow> s)
         else s)
      else if isReleasingActivationKey ext opts ev \<or> isReleasingModifier opts ev then
        (if isToggleMode s then s else deactivateRenderer s)
      else s)"

text \<open>
  The pointer listeners (lines 1592-1683); the flag is \<^verbatim>\<open>isEventFromOverlay\<close>. A touch
  event is taken with at least one touch.
\<close>

definition mousemove :: "externals \<Rightarrow> dom \<Rightarrow> real \<Rightarrow> real \<Rightarrow> bool \<Rightarrow> state \<Rightarrow> state" where
  "mousemove ext d clientX clientY overlay s =
     (let s1 = s\<lparr>isTouchMode := False\<rparr>
      in if overlay then s1 else handlePointerMove ext d clientX clientY s1)"

definition touchmove :: "externals \<Rightarrow> dom \<Rightarrow> real \<Rightarrow> real \<Rightarrow> bool \<Rightarrow> state \<Rightarrow> state" where
  "touchmove ext d clientX clientY overlay s =
     (let s1 = s\<lparr>isTouchMode := True\<rparr>
      in if overlay then s1 else handlePointerMove ext d clientX clientY s1)"

definition mousedown :: "externals \<Rightarrow> real \<Rightarrow> real \<Rightarrow> bool \<Rightarrow> state \<Rightarrow> state" where
  "mousedown ext clientX clientY overlay s =
     (if overlay then s
      else if isInputMode s then handleInputCancel s
      else snd (handlePointerDown ext clientX clientY s))"

definition touchstart :: "externals \<Rightarrow> real \<Rightarrow> real \<Rightarrow> bool \<Rightarrow> state \<Rightarrow> state" where
  "touchstart ext clientX clientY overlay s =
     (let s1 = s\<lparr>isTouchMode := True\<rparr>
      in if overlay then s1
         else if isInputMode s1 then handleInputCancel s1
         else snd (handlePointerDown ext clientX clientY s1))"

text \<open>The \<^verbatim>\<open>click\<close> listener (lines 1685-1709).\<close>

definition click :: "bool \<Rightarrow> state \<Rightarrow> state" where
  "click overlay s =
     (if overlay then s
      else if isRendererActive s \<or> isCopying s \<or> didJustDrag s then
        (let s1 = (if didJustDrag s then s\<lparr>didJustDrag := False\<rparr> else s)
         in if isToggleMode s1 \<and> \<not> isCopying s1
            then (if \<not> isHoldingKeys s1 then deactivateRenderer s1
                  else s1\<lparr>isToggleMode := False\<rparr>)
            else s1)
      else s)"

text \<open>
  The \<^verbatim>\<open>visibilitychange\<close> listener (lines 1711-1727); its argument is
  \<^verbatim>\<open>document.hidden\<close>. It also empties the grabbed boxes, which are presentation state.
\<close>

definition visibilitychange :: "externals \<Rightarrow> bool \<Rightarrow> state \<Rightarrow> state" where
  "visibilitychange ext hidden s =
     (if hidden then
        (if isActivated s \<and> \<not> isInputMode s \<and>
            (case activationTimestamp s of
               Some t \<Rightarrow> now s - t > BLUR_DEACTIVATION_THRESHOLD_MS ext
             | None \<Rightarrow> False)
         then deactivateRenderer s else s)
      else s)"

text \<open>The control calls of the live API object (lines 2020-2040).\<close>

definition apiActivate :: "state \<Rightarrow> state" where
  "apiActivate s = (if \<not> isActivated s then activateRenderer (s\<lparr>isToggleMode := True\<rparr>) else s)"

definition apiDeactivate :: "state \<Rightarrow> state" where
  "apiDeactivate s = (if isActivated s then deactivateRenderer s else s)"

definition apiToggle :: "state \<Rightarrow> state" where
  "apiToggle s =
     (if isActivated s then deactivateRenderer s
      else activateRenderer (s\<lparr>isToggleMode := True\<rparr>))"

text \<open>A timeout or an animation frame fires: it leaves its table and its callback runs.\<close>

definition fireTimeout :: "nat \<Rightarrow> state \<Rightarrow> state" where
  "fireTimeout h s =
     (case timeouts s h of
        None \<Rightarrow> s
      | Some (cb, due) \<Rightarrow>
          (if now s < due then s
           else
             (let s1 = s\<lparr>timeouts := (timeouts s)(h := None)\<rparr>
              in case cb of
                   HoldElapsed \<Rightarrow> activateRenderer s1
                 | SpamGuard \<Rightarrow> deactivateRenderer s1)))"

definition fireFrame :: "externals \<Rightarrow> dom \<Rightarrow> nat \<Rightarrow> state \<Rightarrow> state" where
  "fireFrame ext d h s =
     (case frames s h of
        None \<Rightarrow> s
      | Some cb \<Rightarrow>
          (let s1 = s\<lparr>frames := (frames s)(h := None)\<rparr>
           in case cb of
                AutoScrollFrame \<Rightarrow> scroll ext d s1
              | ProgressFrame animationDuration \<Rightarrow> animateProgress animationDuration s1))"

section \<open>Derived effects\<close>

text \<open>
  The cursor effect (lines 948-974) picks a cursor from five signals; \<^verbatim>\<open>setCursorOverride\<close>
  (lines 934-946) writes it into a style element. \<open>cursorStyleElement\<close> is the text of that
  element, \<open>None\<close> when there is none.
\<close>

definition cursorFor :: "bool \<Rightarrow> bool \<Rightarrow> bool \<Rightarrow> bool \<Rightarrow> elem option \<Rightarrow> string option" where
  "cursorFor activated copying dragging inputMode target =
     (if copying then Some ''progress''
      else if inputMode then None
      else if activated \<and> dragging then Some ''crosshair''
      else if activated \<and> target \<noteq> None then Some ''default''
      else if activated then Some ''crosshair''
      else None)"

definition cursorRule :: "string \<Rightarrow> string" where
  "cursorRule cursor = ''* { cursor: '' @ cursor @ '' !important; }''"

definition setCursorOverride :: "string option \<Rightarrow> state \<Rightarrow> state" where
  "setCursorOverride cursor s =
     (case cursor of
        Some c \<Rightarrow>
          (if c \<noteq> [] then s\<lparr>cursorStyleElement := Some (cursorRule c)\<rparr>
           else if cursorStyleElement s \<noteq> None then s\<lparr>cursorStyleElement := None\<rparr> else s)
      | None \<Rightarrow> (if cursorStyleElement s \<noteq> None then s\<lparr>cursorStyleElement := None\<rparr> else s))"

definition cursorEffect :: "state \<Rightarrow> state" where
  "cursorEffect s =
     setCursorOverride
       (cursorFor (isActivated s) (isCopying s) (isDragging s) (isInputMode s) (targetElement s)) s"

text \<open>
  The memo \<^verbatim>\<open>dragBounds\<close> reads \<^verbatim>\<open>window.scrollX\<close> and \<^verbatim>\<open>window.scrollY\<close>, which are no
  signals: it is computed again only when one of the signals it reads has changed (directly
  or through \<^verbatim>\<open>isDraggingBeyondThreshold\<close>: \<open>dragSignals\<close>), with the scroll position of
  that moment, and keeps its value while the page scrolls. No handler writes one of these
  signals twice with different values, so the memo after a handler is the one computed from
  the state the handler leaves.
\<close>

definition dragSignals :: "state \<Rightarrow> bool \<times> real \<times> real \<times> real \<times> real" where
  "dragSignals s = (isDragging s, mouseX s, mouseY s, dragStartX s, dragStartY s)"

definition refreshDragBounds :: "externals \<Rightarrow> state \<Rightarrow> state \<Rightarrow> state" where
  "refreshDragBounds ext before s =
     (if dragSignals s \<noteq> dragSignals before then s\<lparr>dragBounds := computeDragBounds ext s\<rparr> else s)"

text \<open>
  What is derived from the signals once the handler of an event has returned; \<open>before\<close>
  is the state the handler started from.
\<close>

definition runEffects :: "externals \<Rightarrow> state \<Rightarrow> state \<Rightarrow> state" where
  "runEffects ext before s = cursorEffect (refreshDragBounds ext before s)"

section \<open>Events and runs\<close>

text \<open>
  Everything that can happen to a running instance: the DOM events it listens to, time
  passing, a timeout or frame firing, the queued element lookup arriving, the two halves of
  a copy operation (the flag of \<open>CopySettled\<close>: the input-submit path deactivates after it),
  the callbacks of the overlay, the agent manager, and the control calls of the API.
\<close>

datatype event =
    KeyDown key_event
  | KeyUp key_event
  | MouseMove real real bool
  | TouchMove real real bool
  | MouseDown real real bool
  | TouchStart real real bool
  | MouseUp real real
  | TouchEnd real real
  | Click bool
  | VisibilityChange bool
  | Scroll real real
  | Elapse nat
  | Timeout nat
  | AnimationFrame nat
  | ElementDetected "elem option"
  | CopyStarted
  | CopySettled bool
  | InputChange js_string
  | InputSubmit
  | InputCancel
  | ToggleExpand
  | NativeSelectionEnter "elem list" real real
  | AgentProcessing bool
  | AgentAbort "elem option" real js_string
  | ApiActivate
  | ApiDeactivate
  | ApiToggle
  | SetAgent bool

definition handle :: "externals \<Rightarrow> options \<Rightarrow> dom \<Rightarrow> event \<Rightarrow> state \<Rightarrow> state" where
  "handle ext opts d e s =
     (case e of
        KeyDown ev \<Rightarrow> keydown ext opts ev s
      | KeyUp ev \<Rightarrow> keyup ext opts ev s
      | MouseMove clientX clientY overlay \<Rightarrow> mousemove ext d clientX clientY overlay s
      | TouchMove clientX clientY overlay \<Rightarrow> touchmove ext d clientX clientY overlay s
      | MouseDown clientX clientY overlay \<Rightarrow> mousedown ext clientX clientY overlay s
      | TouchStart clientX clientY overlay \<Rightarrow> touchstart ext clientX clientY overlay s
      | MouseUp clientX clientY \<Rightarrow> handlePointerUp ext d clientX clientY s
      | TouchEnd clientX clientY \<Rightarrow> handlePointerUp ext d clientX clientY s
      | Click overlay \<Rightarrow> click overlay s
      | VisibilityChange hidden \<Rightarrow> visibilitychange ext hidden s
      | Scroll pageLeft pageTop \<Rightarrow> s\<lparr>scrollX := pageLeft, scrollY := pageTop\<rparr>
      | Elapse ms \<Rightarrow> s\<lparr>now := now s + int ms\<rparr>
      | Timeout h \<Rightarrow> fireTimeout h s
      | AnimationFrame h \<Rightarrow> fireFrame ext d h s
      | ElementDetected candidate \<Rightarrow> writeSignal (\<lambda>s0. s0\<lparr>detectedElement := candidate\<rparr>) s
      | CopyStarted \<Rightarrow> executeCopyOperation_begin opts s
      | CopySettled thenDeactivate \<Rightarrow>
          (let s1 = executeCopyOperation_finally s
           in if thenDeactivate then deactivateRenderer s1 else s1)
      | InputChange v \<Rightarrow> s\<lparr>inputText := v\<rparr>
      | InputSubmit \<Rightarrow> handleInputSubmit ext d s
      | InputCancel \<Rightarrow> handleInputCancel s
      | ToggleExpand \<Rightarrow> handleToggleExpand s
      | NativeSelectionEnter elements currentX currentY \<Rightarrow>
          handleNativeSelectionEnter elements currentX currentY s
      | AgentProcessing b \<Rightarrow> s\<lparr>agentProcessing := b\<rparr>
      | AgentAbort element positionX prompt \<Rightarrow> onAbort ext d element positionX prompt s
      | ApiActivate \<Rightarrow> apiActivate s
      | ApiDeactivate \<Rightarrow> apiDeactivate s
      | ApiToggle \<Rightarrow> apiToggle s
      | SetAgent provider \<Rightarrow> s\<lparr>hasAgentProvider := (provider \<or> hasAgentProvider s)\<rparr>)"

definition step :: "externals \<Rightarrow> options \<Rightarrow> dom \<Rightarrow> event \<Rightarrow> state \<Rightarrow> state" where
  "step ext opts d e s = runEffects ext s (handle ext opts d e s)"

fun run :: "externals \<Rightarrow> options \<Rightarrow> dom \<Rightarrow> event list \<Rightarrow> state \<Rightarrow> state" where
  "run ext opts d [] s = s"
| "run ext opts d (e # es) s = run ext opts d es (step ext opts d e s)"


text \<open>
  Events between a pointer-down and its pointer-up that are part of the same gesture: the
  pointer moves, the page scrolls, autoscroll and progress frames fire, time passes, an
  element lookup arrives.
\<close>

fun isPointerTravel :: "event \<Rightarrow> bool" where
  "isPointerTravel (MouseMove _ _ _) = True"
| "isPointerTravel (TouchMove _ _ _) = True"
| "isPointerTravel (Scroll _ _) = True"
| "isPointerTravel (AnimationFrame _) = True"
| "isPointerTravel (Elapse _) = True"
| "isPointerTravel (ElementDetected _) = True"
| "isPointerTravel _ = False"

fun isGeometryQuery :: "effect \<Rightarrow> bool" where
  "isGeometryQuery (ElementAtPoint _ _) = True"
| "isGeometryQuery (ElementsInDrag _) = True"
| "isGeometryQuery (ElementsInDragLoose _) = True"
| "isGeometryQuery _ = False"



section \<open>Initialisation and the public API\<close>

text \<open>
  A property of an options object: absent, present with the value \<^verbatim>\<open>undefined\<close>, or given.
  Object spread copies every own property, also an \<^verbatim>\<open>undefined\<close> one.
\<close>

datatype 'a js_prop = Absent | Undefined | Given 'a

definition spread :: "'a js_prop \<Rightarrow> 'a js_prop \<Rightarrow> 'a js_prop" where
  "spread base layer = (case layer of Absent \<Rightarrow> base | Undefined \<Rightarrow> Undefined | Given v \<Rightarrow> Given v)"

text \<open>What \<^verbatim>\<open>getState()\<close> returns.\<close>

record react_grab_state =
  stateIsActive :: bool
  stateIsDragging :: bool
  stateIsCopying :: bool
  stateIsInputMode :: bool
  stateTargetElement :: "elem option"
  stateDragBounds :: "rect option"

text \<open>
  The module: the guard \<^verbatim>\<open>hasInited\<close> (line 84) and the instances created so far. An API
  object is the stub of lines 136-154 or the live object of an instance.
\<close>

record module =
  hasInited :: bool
  instances :: "state list"

datatype api = StubAPI | LiveAPI nat

datatype api_call =
    Activate
  | Deactivate
  | Toggle
  | IsActive
  | Dispose
  | CopyElement copy_arg
  | GetState
  | SetAgentOptions bool

datatype api_result =
    Done
  | Answer bool
  | Copied "copy_event list \<times> (js_error + bool)"
  | StateOf react_grab_state

definition init ::
  "externals \<Rightarrow> bool \<Rightarrow> bool js_prop \<Rightarrow> bool js_prop \<Rightarrow> bool \<Rightarrow> module \<Rightarrow> api \<times> module" where
  "init ext windowDefined scriptEnabled rawEnabled agentProvider m =
     (if \<not> windowDefined then (StubAPI, m)
      else
        (let enabled = spread (spread (Given True) scriptEnabled) rawEnabled
         in if enabled = Given False \<or> hasInited m then (StubAPI, m)
            else (LiveAPI (length (instances m)),
                  m\<lparr>hasInited := True,
                    instances := instances m @ [initialState ext agentProvider]\<rparr>)))"

text \<open>\<^verbatim>\<open>getStateAPI\<close> (lines 2003-2018) reads the signals and the two memos.\<close>

definition getStateAPI :: "state \<Rightarrow> react_grab_state" where
  "getStateAPI s =
     \<lparr>stateIsActive = isActivated s, stateIsDragging = isDragging s,
      stateIsCopying = isCopying s, stateIsInputMode = isInputMode s,
      stateTargetElement = targetElement s, stateDragBounds = dragBounds s\<rparr>"

definition inactiveState :: react_grab_state where
  "inactiveState =
     \<lparr>stateIsActive = False, stateIsDragging = False, stateIsCopying = False,
      stateIsInputMode = False, stateTargetElement = None, stateDragBounds = None\<rparr>"

text \<open>\<^verbatim>\<open>onCleanup\<close> (lines 1847-1855), run by \<^verbatim>\<open>dispose\<close>.\<close>

definition cleanup :: "state \<Rightarrow> state" where
  "cleanup s =
     (let s1 = stopProgressAnimation (stopAutoScroll (clearSpamTimer (clearHoldTimer s)))
      in setCursorOverride None (s1\<lparr>userSelect := []\<rparr>))"

definition onInstance :: "nat \<Rightarrow> (state \<Rightarrow> state) \<Rightarrow> module \<Rightarrow> module" where
  "onInstance i f m = m\<lparr>instances := (instances m)[i := f (instances m ! i)]\<rparr>"

text \<open>
  A call on an API object. A live object always belongs to an instance \<open>init\<close> created; the
  theme calls are left out, as the theme is.
\<close>

definition callAPI ::
  "externals \<Rightarrow> copy_env \<Rightarrow> nat \<Rightarrow> api \<Rightarrow> api_call \<Rightarrow> module \<Rightarrow> api_result \<times> module" where
  "callAPI ext cenv maxLines a c m =
     (case a of
        StubAPI \<Rightarrow>
          (case c of
             IsActive \<Rightarrow> (Answer False, m)
           | CopyElement elements \<Rightarrow> (Copied ([], Inr False), m)
           | GetState \<Rightarrow> (StateOf inactiveState, m)
           | _ \<Rightarrow> (Done, m))
      | LiveAPI i \<Rightarrow>
          (if i < length (instances m) then
             (case c of
                Activate \<Rightarrow> (Done, onInstance i (\<lambda>s. runEffects ext s (apiActivate s)) m)
              | Deactivate \<Rightarrow> (Done, onInstance i (\<lambda>s. runEffects ext s (apiDeactivate s)) m)
              | Toggle \<Rightarrow> (Done, onInstance i (\<lambda>s. runEffects ext s (apiToggle s)) m)
              | IsActive \<Rightarrow> (Answer (isActivated (instances m ! i)), m)
              | Dispose \<Rightarrow> (Done, (onInstance i cleanup m)\<lparr>hasInited := False\<rparr>)
              | CopyElement elements \<Rightarrow> (Copied (copyElementAPI cenv maxLines elements), m)
              | GetState \<Rightarrow> (StateOf (getStateAPI (instances m ! i)), m)
              | SetAgentOptions provider \<Rightarrow>
                  (Done, onInstance i (\<lambda>s. s\<lparr>hasAgentProvider := (provider \<or> hasAgentProvider s)\<rparr>) m))
           else (Done, m)))"

section \<open>Bookkeeping of timers\<close>


definition timersTracked :: "state \<Rightarrow> bool" where
  "timersTracked s \<longleftrightarrow>
     (\<forall>h due. timeouts s h = Some (HoldElapsed, due) \<longrightarrow> holdTimerId s = Some h) \<and>
     (\<forall>h due. timeouts s h = Some (SpamGuard, due) \<longrightarrow> keydownSpamTimerId s = Some h) \<and>
     (\<forall>h. frames s h = Some AutoScrollFrame \<longrightarrow> autoScrollAnimationId s = Some h) \<and>
     (\<forall>h. timeouts s h \<noteq> None \<longrightarrow> 0 < h) \<and>
     0 < nextHandle s"

definition progressTracked :: "state \<Rightarrow> bool" where
  "progressTracked s \<longleftrightarrow>
     (\<forall>h animationDuration. frames s h = Some (ProgressFrame animationDuration) \<longrightarrow>
        progressAnimationId s = Some h \<and> isCopying s)"

section \<open>Example collaborators\<close>

text \<open>
  Values for the parameters, used where a run is evaluated: a drag threshold of 2 pixels, a
  blur threshold of 500 ms, the default activation chord (a modifier with C) and the
  default options of \<^verbatim>\<open>init\<close> (lines 124-131). The coordinates of the examples are small
  integers and halves, on which the arithmetic of doubles is exact.
\<close>

definition demoExt :: externals where
  "demoExt =
     \<lparr>OFFSCREEN_POSITION = -1000, DRAG_THRESHOLD_PX = 2, BLUR_DEACTIVATION_THRESHOLD_MS = 500,
      AUTO_SCROLL_EDGE_THRESHOLD_PX = 25, AUTO_SCROLL_SPEED_PX = 10,
      MODIFIER_KEYS = [''Meta'', ''Control'', ''Shift'', ''Alt''],
      isTargetKeyCombination = (\<lambda>ev opts. (metaKey ev \<or> ctrlKey ev) \<and> toLowerCase (key ev) = ''c''),
      keyMatchesCode = (\<lambda>k c. False),
      isCLikeKey = (\<lambda>k c. toLowerCase k = ''c''),
      jsAdd = (\<lambda>a b. a + b), jsSub = (\<lambda>a b. a - b), jsDiv = (\<lambda>a b. a / b)\<rparr>"

definition demoOptions :: options where
  "demoOptions =
     \<lparr>keyHoldDuration = 200, allowActivationInsideInput = True,
      activationShortcut = None, activationKey = None\<rparr>"

definition demoDom :: dom where
  "demoDom =
     \<lparr>getElementAtPosition = (\<lambda>x y. Some 7),
      getElementsInDrag = (\<lambda>r. []),
      getElementsInDragLoose = (\<lambda>r. [7, 8]),
      getBoundingClientRect = (\<lambda>e. \<lparr>rectX = 0, rectY = 0, rectWidth = 100, rectHeight = 20\<rparr>),
      createElementBounds = (\<lambda>e. \<lparr>rectX = 0, rectY = 0, rectWidth = 100, rectHeight = 20\<rparr>),
      documentContains = (\<lambda>e. True),
      innerWidth = 1000, innerHeight = 800\<rparr>"

text \<open>A key event on the page: the key, whether Meta is down, whether it is a repeat.\<close>

definition keyPress :: "string \<Rightarrow> bool \<Rightarrow> bool \<Rightarrow> key_event" where
  "keyPress k meta rep =
     \<lparr>key = k, code = [], repeat = rep, metaKey = meta, ctrlKey = False, shiftKey = False,
      altKey = False, fromOverlay = False, triggeredByInput = False\<rparr>"





text \<open>
  The latches and a drag presuppose activation: input mode, toggle mode or dragging only
  while activated.
\<close>

definition latched :: "state \<Rightarrow> bool" where
  "latched s \<longleftrightarrow> (isInputMode s \<or> isToggleMode s \<or> isDragging s \<longrightarrow> isActivated s)"

section \<open>Properties of the copy orchestrator\<close>

lemmas copy_defs = copyElementAPI_def tryCopyWithFallback_def tryCopyFrom_def catchBlock_def
  callHook_def structuredPath_def startRun_def emptyRun_def
  plainTextWrite_def attemptWrite_def elementSnippets_def createCombinedTextContent_def
  extractElementTextContent_def withPrompt_def trim_def isWhiteSpace_def blankLine_def utf16_def
  demoEnv_def List.map_filter_def Let_def

lemma write_is_no_hook: "isClipboardWrite ev \<Longrightarrow> \<not> isAfterCopy ev \<and> \<not> isCopyError ev"
  by (cases ev) auto

lemma attemptWrite_shape:
  "attemptWrite env text r = (r', x) \<Longrightarrow>
     trace r' = trace r @ [ClipboardWrite text] \<and> writes r' = Suc (writes r) \<and>
     (case x of Some e \<Rightarrow> didCopy r' = didCopy r \<and> copyContent env (writes r) text = Throws e
              | None \<Rightarrow> copyContent env (writes r) text = Wrote (didCopy r'))"
  by (auto simp: attemptWrite_def Let_def split: write_outcome.splits)

lemma plainTextWrite_shape:
  "plainTextWrite env elements p r = (r', x) \<Longrightarrow>
     (\<exists>suf. trace r' = trace r @ suf \<and> (\<forall>ev \<in> set suf. isClipboardWrite ev)) \<and>
     (x \<noteq> None \<longrightarrow> didCopy r' = didCopy r)"
  by (auto simp: plainTextWrite_def Let_def dest!: attemptWrite_shape split: if_splits option.splits)

text \<open>
  The \<^verbatim>\<open>try\<close> block only appends to the trace, and what it appends is neither a copy-error
  nor an after-copy entry. The \<^verbatim>\<open>catch\<close> block appends the copy-error entry and then
  clipboard writes only.
\<close>

lemma structuredPath_shape:
  assumes "structuredPath env maxLines elements p r0 = (r1, x)"
  shows "\<exists>suf. trace r1 = trace r0 @ suf \<and> (\<forall>ev \<in> set suf. \<not> isCopyError ev \<and> \<not> isAfterCopy ev)"
  using assms
  by (auto simp: structuredPath_def plainTextWrite_def attemptWrite_def callHook_def Let_def
      split: if_splits prod.splits option.splits write_outcome.splits)

lemma catchBlock_shape:
  assumes "catchBlock env elements p e r = (r', x)"
  shows "\<exists>suf. trace r' = trace r @ CopyError e # suf \<and> (\<forall>ev \<in> set suf. isClipboardWrite ev)"
  using assms
  by (auto simp: catchBlock_def callHook_def Let_def dest!: plainTextWrite_shape
      split: option.splits prod.splits)

text \<open>
  Whenever \<^verbatim>\<open>tryCopyWithFallback\<close> resolves, it has reached the after-copy call site exactly
  once, as its last step, with the boolean it resolves to. This is the path the pointer and
  input handlers take (\<^verbatim>\<open>copySingleElementToClipboard\<close>, \<^verbatim>\<open>copyMultipleElementsToClipboard\<close>).
\<close>

lemma tryCopy_after_copy_once:
  assumes "tryCopyFrom env maxLines elements p before = (tr, Inr b)"
  shows "\<exists>suf. tr = before @ suf \<and> filter isAfterCopy suf = [AfterCopy elements b] \<and>
               last suf = AfterCopy elements b"
proof -
  let ?r0 = "emptyRun\<lparr>trace := before @ [BeforeCopy elements]\<rparr>"
  obtain r1 x where sp: "structuredPath env maxLines elements p ?r0 = (r1, x)"
    by (cases "structuredPath env maxLines elements p ?r0")
  from structuredPath_shape[OF sp] obtain suf where
    suf: "trace r1 = before @ BeforeCopy elements # suf"
      "\<forall>ev \<in> set suf. \<not> isCopyError ev \<and> \<not> isAfterCopy ev"
    by auto
  have f1: "filter isAfterCopy suf = []"
    using suf(2) by (auto simp: filter_empty_conv)
  show ?thesis
  proof (cases x)
    case None
    with assms sp suf f1 show ?thesis
      by (auto simp: tryCopyFrom_def callHook_def Let_def split: option.splits)
  next
    case (Some e)
    obtain r2 y where cb: "catchBlock env elements p e r1 = (r2, y)"
      by (cases "catchBlock env elements p e r1")
    from catchBlock_shape[OF cb] obtain suf' where
      suf': "trace r2 = trace r1 @ CopyError e # suf'" "\<forall>ev \<in> set suf'. isClipboardWrite ev"
      by auto
    have f2: "filter isAfterCopy suf' = []"
      using suf'(2) by (auto simp: filter_empty_conv dest: write_is_no_hook)
    with assms sp Some cb suf suf'(1) f1 show ?thesis
      by (auto simp: tryCopyFrom_def callHook_def Let_def split: option.splits)
  qed
qed

text \<open>
  The public \<^verbatim>\<open>copyElement\<close> wraps that path in a second pair of hook calls (lines 1995 and
  1999), so whenever it resolves on a non-empty list the after-copy call site has been
  reached twice.
\<close>

lemma copyElementAPI_after_copy_twice:
  assumes "elementsArray \<noteq> []"
    and "copyElementAPI env maxLines (ElementArray elementsArray) = (tr, Inr b)"
  shows "filter isAfterCopy tr = [AfterCopy elementsArray b, AfterCopy elementsArray b]"
proof -
  obtain tr' res where
    t: "tryCopyFrom env maxLines elementsArray None [BeforeCopy elementsArray] = (tr', res)"
    by (cases "tryCopyFrom env maxLines elementsArray None [BeforeCopy elementsArray]")
  with assms have r: "res = Inr b" "tr = tr' @ [AfterCopy elementsArray b]"
    by (auto simp: copyElementAPI_def callHook_def emptyRun_def Let_def
        split: sum.splits option.splits)
  from tryCopy_after_copy_once[OF t[unfolded r(1)]] r(2) show ?thesis
    by auto
qed

text \<open>
  C3. The claim: on a non-empty list, \<^verbatim>\<open>copyElement\<close> included, the after-copy hook runs
  exactly once, after all other hooks, with the final outcome. The code at
  \<^verbatim>\<open>copyElement(button)\<close> with a working clipboard: one clipboard write, one copy-success
  call with the written text, and the before-copy and after-copy call sites reached twice
  each.
\<close>

theorem copyElement_fires_after_copy_twice:
  "copyElementAPI (demoEnv (\<lambda>i text. Wrote True)) 10 (OneElement 0) =
     ([BeforeCopy [0], BeforeCopy [0], ContextRequest 0, ClipboardWrite (utf16 ''<button>''),
       CopySuccess [0] (utf16 ''<button>''), AfterCopy [0] True, AfterCopy [0] True],
      Inr True)"
  by (simp add: copy_defs)

text \<open>
  C4. \<^verbatim>\<open>copyElement([])\<close> resolves to \<open>False\<close> with an empty trace: no clipboard write and
  no hook (before-copy, success, error, after-copy), whatever the collaborators would do.
\<close>

theorem copyElement_empty_is_inert:
  "copyElementAPI env maxLines (ElementArray []) = ([], Inr False)"
  by (simp add: copyElementAPI_def)

text \<open>
  C5. The claim: when the structured path throws, the exception is caught and never
  propagated, the error hook fires once with it, the plain-text fallback is attempted once
  more, and the orchestrator returns its boolean. The code with a clipboard that rejects
  every write: the structured write throws and is caught, the error hook fires once, the
  plain-text write is attempted, and its exception leaves \<^verbatim>\<open>tryCopyWithFallback\<close>, because
  the write of the \<^verbatim>\<open>catch\<close> block (line 562) is not guarded. No boolean is returned, and the
  after-copy call site, which follows the \<^verbatim>\<open>try\<close> statement unconditionally (line 566), is
  not reached.
\<close>

theorem tryCopy_retry_throw_propagates:
  "tryCopyWithFallback (demoEnv (\<lambda>i text. Throws (JsError ''denied''))) 10 [0] None =
     ([BeforeCopy [0], ContextRequest 0, ClipboardWrite (utf16 ''<button>''),
       CopyError (JsError ''denied''), ClipboardWrite (utf16 ''Save'')],
      Inl (JsError ''denied''))"
  by (simp add: copy_defs)

text \<open>
  Apart from that, the \<^verbatim>\<open>catch\<close> block does what is claimed. Let the hooks return and let
  the structured path throw \<open>e\<close>, leaving the run \<open>r1\<close>; nothing has been copied then. The
  trace of the invocation has exactly one copy-error entry, \<open>CopyError e\<close>, and nothing
  before it is a copy-error or after-copy entry. The plain text is the trimmed text content
  of each element, empty entries dropped, joined by blank lines. If it is empty, no further
  write is attempted and the result is \<open>False\<close>. If it is not empty, it is written once
  more, with the instruction prefixed; when that write returns \<open>b\<close>, the after-copy hook
  runs last with \<open>b\<close> and the orchestrator returns \<open>b\<close>.
\<close>

lemma catch_block_retries_plain_text:
  assumes thrown: "structuredPath env maxLines elements extraPrompt (startRun elements) = (r1, Some e)"
    and hooks: "hookThrows env = (\<lambda>tr. None)"
    and run: "tryCopyWithFallback env maxLines elements extraPrompt = (tr, res)"
    and plain: "plain = join blankLine (filter (\<lambda>t. t \<noteq> [])
                   (map (\<lambda>el. trim (extractElementTextContent env el)) elements))"
  shows "filter isCopyError tr = [CopyError e] \<and>
         (\<forall>ev \<in> set (trace r1). \<not> isAfterCopy ev \<and> \<not> isCopyError ev) \<and>
         \<not> didCopy r1 \<and>
         (plain = [] \<longrightarrow>
            tr = trace r1 @ [CopyError e, AfterCopy elements False] \<and> res = Inr False) \<and>
         (\<forall>b. plain \<noteq> [] \<and> copyContent env (writes r1) (withPrompt extraPrompt plain) = Wrote b \<longrightarrow>
            tr = trace r1 @ [CopyError e, ClipboardWrite (withPrompt extraPrompt plain),
                             AfterCopy elements b] \<and> res = Inr b)"
proof -
  from structuredPath_shape[OF thrown] obtain suf where
    suf: "trace r1 = BeforeCopy elements # suf" "\<forall>ev \<in> set suf. \<not> isCopyError ev \<and> \<not> isAfterCopy ev"
    by (auto simp: startRun_def emptyRun_def)
  have nd: "\<not> didCopy r1"
    using thrown hooks
    by (auto simp: structuredPath_def plainTextWrite_def attemptWrite_def callHook_def Let_def
        startRun_def emptyRun_def
        split: if_splits prod.splits option.splits write_outcome.splits)
  have pl: "plain = createCombinedTextContent env elements"
    by (simp add: plain createCombinedTextContent_def)
  have clean: "\<forall>ev \<in> set (trace r1). \<not> isAfterCopy ev \<and> \<not> isCopyError ev"
    using suf by auto
  have noerr: "filter isCopyError (trace r1) = []"
    using clean by (auto simp: filter_empty_conv)
  have start: "emptyRun\<lparr>trace := [BeforeCopy elements]\<rparr> = startRun elements"
    by (simp add: startRun_def)
  show ?thesis
    using thrown run nd clean noerr hooks
    by (auto simp: tryCopyWithFallback_def tryCopyFrom_def catchBlock_def callHook_def start
        plainTextWrite_def attemptWrite_def Let_def pl
        split: write_outcome.splits if_splits)
qed

text \<open>With a clipboard that rejects the first write only, and an instruction.\<close>

lemma catch_block_retry_example:
  "tryCopyWithFallback retryEnv 10 [0] (Some (utf16 ''fix'')) =
     ([BeforeCopy [0], ContextRequest 0,
       ClipboardWrite (utf16 ''fix'' @ blankLine @ utf16 ''<button>''),
       CopyError (JsError ''denied''), ClipboardWrite (utf16 ''fix'' @ blankLine @ utf16 ''Save''),
       AfterCopy [0] True],
      Inr True)"
  by (simp add: retryEnv_def copy_defs)

text \<open>
  What the copy-success hook throws is caught in the same way, after a write that
  succeeded: the error hook fires with it, and with no plain text to write the orchestrator
  returns \<open>True\<close>.
\<close>

lemma success_hook_throw_is_caught:
  "tryCopyWithFallback throwingHookEnv 10 [0] None =
     ([BeforeCopy [0], ContextRequest 0, ClipboardWrite (utf16 ''<button>''),
       CopySuccess [0] (utf16 ''<button>''), CopyError (JsError ''hook''), AfterCopy [0] True],
      Inr True)"
  by (simp add: throwingHookEnv_def copy_defs)

section \<open>Closed forms of the primitives\<close>

text \<open>
  Each primitive is one record update. With these equations a handler unfolds into updates
  of the state it was given.
\<close>

lemma stopProgressAnimation_eq:
  "stopProgressAnimation s =
     s\<lparr>frames := (case progressAnimationId s of Some h \<Rightarrow> (frames s)(h := None) | None \<Rightarrow> frames s),
       progressAnimationId := None, progressStartTime := None\<rparr>"
  by (cases "progressAnimationId s")
     (auto simp: stopProgressAnimation_def cancelAnimationFrame_def intro!: state.equality)

lemma stopAutoScroll_eq:
  "stopAutoScroll s =
     s\<lparr>frames := (case autoScrollAnimationId s of Some h \<Rightarrow> (frames s)(h := None) | None \<Rightarrow> frames s),
       autoScrollAnimationId := None\<rparr>"
  by (cases "autoScrollAnimationId s")
     (auto simp: stopAutoScroll_def cancelAnimationFrame_def intro!: state.equality)

lemma clearHoldTimer_eq:
  "clearHoldTimer s =
     s\<lparr>timeouts := (case holdTimerId s of
                      Some h \<Rightarrow> (if h \<noteq> 0 then (timeouts s)(h := None) else timeouts s)
                    | None \<Rightarrow> timeouts s)\<rparr>"
  by (cases "holdTimerId s")
     (auto simp: clearHoldTimer_def clearTimeout_def truthy_def intro!: state.equality)

lemma clearSpamTimer_eq:
  "clearSpamTimer s =
     s\<lparr>timeouts := (case keydownSpamTimerId s of
                      Some h \<Rightarrow> (if h \<noteq> 0 then (timeouts s)(h := None) else timeouts s)
                    | None \<Rightarrow> timeouts s)\<rparr>"
  by (cases "keydownSpamTimerId s")
     (auto simp: clearSpamTimer_def clearTimeout_def truthy_def intro!: state.equality)

lemma writeSignal_eq:
  "writeSignal setter s =
     (setter s)\<lparr>frozenElement :=
       (if targetElement (setter s) \<noteq> targetElement s
        then (case targetElement (setter s) of
                Some element \<Rightarrow> Some element
              | None \<Rightarrow> frozenElement (setter s))
        else frozenElement (setter s))\<rparr>"
  by (simp add: writeSignal_def Let_def split: option.splits)

lemma activateRenderer_eq:
  "activateRenderer s =
     s\<lparr>frames := (case progressAnimationId s of Some h \<Rightarrow> (frames s)(h := None) | None \<Rightarrow> frames s),
       progressAnimationId := None, progressStartTime := None,
       activationTimestamp := Some (now s), isActivated := True,
       frozenElement :=
         (if \<not> isActivated s \<and> \<not> isCopying s \<and> \<not> isDragging s
          then (case detectedElement s of Some element \<Rightarrow> Some element | None \<Rightarrow> frozenElement s)
          else frozenElement s),
       effects := effects s @ [OnActivate]\<rparr>"
  by (rule state.equality)
     (auto simp: activateRenderer_def emit_def stopProgressAnimation_eq writeSignal_eq
        targetElement_def isRendererActive_def split: option.splits)

lemma endDrag_eq:
  "endDrag s =
     s\<lparr>isDragging := False,
       frozenElement :=
         (if isDragging s \<and> isActivated s \<and> \<not> isCopying s
          then (case detectedElement s of Some element \<Rightarrow> Some element | None \<Rightarrow> frozenElement s)
          else frozenElement s),
       frames := (case autoScrollAnimationId s of Some h \<Rightarrow> (frames s)(h := None) | None \<Rightarrow> frames s),
       autoScrollAnimationId := None, userSelect := []\<rparr>"
  by (rule state.equality)
     (auto simp: endDrag_def stopAutoScroll_eq writeSignal_eq targetElement_def isRendererActive_def
        split: option.splits)

lemma endDrag_fields [simp]:
  "isDragging (endDrag s) = False"
  "isActivated (endDrag s) = isActivated s"
  "isCopying (endDrag s) = isCopying s"
  "isInputMode (endDrag s) = isInputMode s"
  "isToggleMode (endDrag s) = isToggleMode s"
  "isHoldingKeys (endDrag s) = isHoldingKeys s"
  "hasAgentProvider (endDrag s) = hasAgentProvider s"
  "effects (endDrag s) = effects s"
  "timeouts (endDrag s) = timeouts s"
  "frames (endDrag s) = frames (stopAutoScroll s)"
  "holdTimerId (endDrag s) = holdTimerId s"
  "keydownSpamTimerId (endDrag s) = keydownSpamTimerId s"
  "autoScrollAnimationId (endDrag s) = None"
  "progressAnimationId (endDrag s) = progressAnimationId s"
  "nextHandle (endDrag s) = nextHandle s"
  "scrollX (endDrag s) = scrollX s"
  "scrollY (endDrag s) = scrollY s"
  "dragStartX (endDrag s) = dragStartX s"
  "dragStartY (endDrag s) = dragStartY s"
  by (simp_all add: endDrag_eq stopAutoScroll_eq)

lemma deactivateRenderer_eq:
  "deactivateRenderer s =
     s\<lparr>isToggleMode := False, isHoldingKeys := False, isActivated := False, isInputMode := False,
       inputText := [], isToggleFrozen := False, isInputExpanded := False, frozenElement := None,
       isDragging := False, userSelect := (if isDragging s then [] else userSelect s),
       timeouts := (\<lambda>h. if (holdTimerId s = Some h \<or> keydownSpamTimerId s = Some h) \<and> h \<noteq> 0
                        then None else timeouts s h),
       frames := (\<lambda>h. if autoScrollAnimationId s = Some h \<or> progressAnimationId s = Some h
                      then None else frames s h),
       autoScrollAnimationId := None, progressAnimationId := None, progressStartTime := None,
       activationTimestamp := None, effects := effects s @ [OnDeactivate]\<rparr>"
  by (rule state.equality)
     (auto simp: deactivateRenderer_def Let_def emit_def stopProgressAnimation_eq stopAutoScroll_eq
        clearHoldTimer_eq clearSpamTimer_eq fun_eq_iff split: option.splits)

lemma runEffects_eq:
  "runEffects ext before s =
     s\<lparr>dragBounds :=
         (if dragSignals s \<noteq> dragSignals before then computeDragBounds ext s else dragBounds s),
       cursorStyleElement :=
         map_option cursorRule
           (cursorFor (isActivated s) (isCopying s) (isDragging s) (isInputMode s) (targetElement s))\<rparr>"
  by (rule state.equality)
     (auto simp: runEffects_def refreshDragBounds_def cursorEffect_def setCursorOverride_def
        cursorFor_def targetElement_def isRendererActive_def split: option.splits)

lemma scrollWindow_eq:
  "scrollWindow ext direction s =
     s\<lparr>effects := effects s @
        (case direction of (dirTop, dirBottom, dirLeft, dirRight) \<Rightarrow>
           (if dirTop then [ScrollBy 0 (- AUTO_SCROLL_SPEED_PX ext)] else []) @
           (if dirBottom then [ScrollBy 0 (AUTO_SCROLL_SPEED_PX ext)] else []) @
           (if dirLeft then [ScrollBy (- AUTO_SCROLL_SPEED_PX ext) 0] else []) @
           (if dirRight then [ScrollBy (AUTO_SCROLL_SPEED_PX ext) 0] else []))\<rparr>"
  by (cases direction) (simp add: scrollWindow_def emit_def)

lemma enterInputMode_eq:
  "enterInputMode s =
     s\<lparr>isToggleMode := True, isToggleFrozen := True, isInputExpanded := True,
       keydownSpamTimerId := None,
       timeouts := (\<lambda>h. if keydownSpamTimerId s = Some h
                         \<or> (\<not> isActivated s \<and> holdTimerId s = Some h \<and> h \<noteq> 0)
                        then None else timeouts s h),
       frames := (if isActivated s then frames s
                  else (case progressAnimationId s of Some h \<Rightarrow> (frames s)(h := None) | None \<Rightarrow> frames s)),
       progressAnimationId := (if isActivated s then progressAnimationId s else None),
       progressStartTime := (if isActivated s then progressStartTime s else None),
       activationTimestamp := (if isActivated s then activationTimestamp s else Some (now s)),
       isActivated := True,
       frozenElement :=
         (if \<not> isActivated s \<and> \<not> isCopying s \<and> \<not> isDragging s
          then (case detectedElement s of Some element \<Rightarrow> Some element | None \<Rightarrow> frozenElement s)
          else frozenElement s),
       effects := (if isActivated s then effects s else effects s @ [OnActivate]),
       isInputMode := True\<rparr>"
  by (rule state.equality)
     (auto simp: enterInputMode_def Let_def emit_def clearTimeout_def clearHoldTimer_eq
        activateRenderer_eq fun_eq_iff split: option.splits)

lemma armSpamGuard_eq:
  "armSpamGuard s =
     s\<lparr>timeouts := (\<lambda>h. if h = nextHandle s then Some (SpamGuard, now s + 200)
                        else if keydownSpamTimerId s = Some h then None else timeouts s h),
       nextHandle := Suc (nextHandle s), keydownSpamTimerId := Some (nextHandle s)\<rparr>"
  by (rule state.equality)
     (auto simp: armSpamGuard_def Let_def setTimeout_def clearTimeout_def fun_eq_iff
        split: option.splits)

lemma armHoldTimer_eq:
  "armHoldTimer opts s =
     s\<lparr>timeouts := (\<lambda>h. if h = nextHandle s then Some (HoldElapsed, now s + keyHoldDuration opts)
                        else if holdTimerId s = Some h then None else timeouts s h),
       isHoldingKeys := True,
       nextHandle := Suc (nextHandle s), holdTimerId := Some (nextHandle s)\<rparr>"
  by (rule state.equality)
     (auto simp: armHoldTimer_def Let_def setTimeout_def clearTimeout_def fun_eq_iff
        split: option.splits)

lemmas prim_eqs = emit_def clearTimeout_def cancelAnimationFrame_def setTimeout_def
  requestAnimationFrame_def stopProgressAnimation_eq stopAutoScroll_eq clearHoldTimer_eq
  clearSpamTimer_eq activateRenderer_eq deactivateRenderer_eq runEffects_eq writeSignal_eq

lemma deactivate_flags [simp]:
  "isActivated (deactivateRenderer s) = False"
  "isToggleMode (deactivateRenderer s) = False"
  "isHoldingKeys (deactivateRenderer s) = False"
  "isInputMode (deactivateRenderer s) = False"
  "isDragging (deactivateRenderer s) = False"
  "isCopying (deactivateRenderer s) = isCopying s"
  by (simp_all add: deactivateRenderer_eq)

lemma run_append: "run ext opts d (xs @ ys) s = run ext opts d ys (run ext opts d xs s)"
  by (induction xs arbitrary: s) simp_all

text \<open>The key listener ends in one of six ways.\<close>

lemma keydown_cases:
  assumes "P s" and "P (emit AbortAllSessions s)" and "P (deactivateRenderer s)"
    and "P (enterInputMode s)" and "P (armSpamGuard s)" and "P (armHoldTimer opts s)"
  shows "P (keydown ext opts ev s)"
  using assms
  by (auto simp: keydown_def armTimers_def Let_def)

section \<open>The timer bookkeeping is an invariant\<close>



lemma tracked_emit [simp]: "timersTracked (emit e s) = timersTracked s"
  by (simp add: timersTracked_def emit_def)

lemma tracked_writeSignal [simp]: "timersTracked (writeSignal setter s) = timersTracked (setter s)"
  by (simp add: timersTracked_def writeSignal_eq)

lemma tracked_upd [simp]:
  "timersTracked (s\<lparr>didJustDrag := b\<rparr>) = timersTracked s"
  "timersTracked (s\<lparr>isToggleMode := b\<rparr>) = timersTracked s"
  "timersTracked (s\<lparr>isTouchMode := b\<rparr>) = timersTracked s"
  "timersTracked (s\<lparr>isCopying := b\<rparr>) = timersTracked s"
  "timersTracked (s\<lparr>mouseX := x, mouseY := y\<rparr>) = timersTracked s"
  "timersTracked (s\<lparr>mouseX := x, mouseY := y, isInputMode := b, inputText := t\<rparr>) = timersTracked s"
  "timersTracked (s\<lparr>isCopying := b, progressStartTime := p\<rparr>) = timersTracked s"
  by (simp_all add: timersTracked_def)






































section \<open>Latches presuppose activation\<close>

lemma latched_deactivate [simp]: "latched (deactivateRenderer s)"
  by (simp add: latched_def)

lemma latched_keydown: "latched s \<Longrightarrow> latched (keydown ext opts ev s)"
  by (rule keydown_cases)
     (auto simp: latched_def emit_def enterInputMode_eq armSpamGuard_eq armHoldTimer_eq)

lemma latched_keyup: "latched s \<Longrightarrow> latched (keyup ext opts ev s)"
  by (auto simp: keyup_def split: option.splits) (auto simp: latched_def clearTimeout_def)

lemma latched_pointerUp: "latched s \<Longrightarrow> latched (handlePointerUp ext d x y s)"
  by (auto simp: latched_def handlePointerUp_def Let_def emit_def
      split: prod.splits list.splits option.splits if_splits)

lemma latched_handle:
  assumes "latched s" and "e \<noteq> ToggleExpand"
  shows "latched (handle ext opts d e s)"
proof (cases e)
  case (KeyDown ev) with assms show ?thesis by (simp add: handle_def latched_keydown)
next
  case (KeyUp ev) with assms show ?thesis by (simp add: handle_def latched_keyup)
next
  case (MouseUp x y) with assms show ?thesis by (simp add: handle_def latched_pointerUp)
next
  case (TouchEnd x y) with assms show ?thesis by (simp add: handle_def latched_pointerUp)
next
  case (MouseMove x y ov)
  with assms show ?thesis
    by (auto simp: handle_def latched_def mousemove_def handlePointerMove_def startAutoScroll_def
        scroll_def scrollWindow_eq stopAutoScroll_eq requestAnimationFrame_def Let_def)
next
  case (TouchMove x y ov)
  with assms show ?thesis
    by (auto simp: handle_def latched_def touchmove_def handlePointerMove_def startAutoScroll_def
        scroll_def scrollWindow_eq stopAutoScroll_eq requestAnimationFrame_def Let_def)
next
  case (AnimationFrame h)
  with assms show ?thesis
    by (auto simp: handle_def latched_def fireFrame_def animateProgress_def
        scroll_def scrollWindow_eq stopAutoScroll_eq requestAnimationFrame_def Let_def
        split: option.splits frame_cb.splits)
next
  case (Timeout h)
  with assms show ?thesis
    by (auto simp: handle_def fireTimeout_def Let_def split: option.splits timeout_cb.splits)
       (auto simp: latched_def activateRenderer_eq)
next
  case (CopySettled b)
  with assms show ?thesis
    by (auto simp: handle_def executeCopyOperation_finally_def Let_def)
       (auto simp: latched_def stopProgressAnimation_eq writeSignal_eq)
next
  case InputSubmit
  with assms show ?thesis
    by (auto simp: handle_def handleInputSubmit_def Let_def split: option.splits)
       (auto simp: latched_def emit_def deactivateRenderer_eq)
qed (use assms in \<open>auto simp: handle_def latched_def mousedown_def touchstart_def handleInputCancel_def
        handlePointerDown_def isRendererActive_def click_def visibilitychange_def
        executeCopyOperation_begin_def startProgressAnimation_def animateProgress_def
        requestAnimationFrame_def handleNativeSelectionEnter_def onAbort_def apiActivate_def
        apiDeactivate_def apiToggle_def activateRenderer_eq emit_def writeSignal_eq Let_def
        split: option.splits\<close>)

lemma latched_run:
  "latched s \<Longrightarrow> ToggleExpand \<notin> set es \<Longrightarrow> latched (run ext opts d es s)"
proof (induction es arbitrary: s)
  case Nil then show ?case by simp
next
  case (Cons e es)
  from Cons.prems have ne: "e \<noteq> ToggleExpand" "ToggleExpand \<notin> set es" by auto
  have "latched (step ext opts d e s)"
    using latched_handle[OF Cons.prems(1) ne(1), of ext opts d]
    by (simp add: step_def latched_def runEffects_eq)
  then show ?case using Cons.IH ne(2) by simp
qed

text \<open>
  Unless the overlay raises its expand callback, neither latch is set and no drag is in
  progress while the machine is not activated: the two early returns of the \<^verbatim>\<open>keyup\<close>
  listener (input mode, toggle mode) are then not taken before activation.
\<close>

lemma latches_need_activation:
  assumes "ToggleExpand \<notin> set evs" and "s = run ext opts d evs (initialState ext agentProvider)"
    and "\<not> isActivated s"
  shows "\<not> isInputMode s \<and> \<not> isToggleMode s \<and> \<not> isDragging s"
proof -
  have "latched (initialState ext agentProvider)" by (simp add: latched_def initialState_def)
  from latched_run[OF this assms(1), of ext opts d] assms(2,3) show ?thesis
    by (auto simp: latched_def)
qed

section \<open>Evaluating runs\<close>

lemmas eval_defs = step_def handle_def keydown_def keyup_def armTimers_def mousedown_def
  handlePointerDown_def fireTimeout_def visibilitychange_def isRendererActive_def
  targetElement_def cursorFor_def Let_def prim_eqs enterInputMode_eq armHoldTimer_eq
  armSpamGuard_eq initialState_def demoExt_def demoOptions_def demoDom_def keyPress_def
  toLowerCase_def lowerChar_def isReleasingModifier_def getRequiredModifiers_def
  isReleasingActivationKey_def hasCustomShortcut_def dragSignals_def computeDragBounds_def
  isDraggingBeyondThreshold_def calculateDragDistance_def calculateDragRectangle_def

lemmas eval2 = eval_defs handlePointerUp_def endDrag_eq executeCopyOperation_begin_def startProgressAnimation_def
  animateProgress_def apiActivate_def touchstart_def handleInputCancel_def

section \<open>Progress frames are tracked while copy operations do not overlap\<close>


lemma progress_emit [simp]: "progressTracked (emit e s) = progressTracked s"
  by (simp add: progressTracked_def emit_def)

lemma progress_writeSignal [simp]:
  "progressTracked (writeSignal setter s) = progressTracked (setter s)"
  by (simp add: progressTracked_def writeSignal_eq)


lemma progress_none:
  "progressTracked s \<Longrightarrow> \<not> isCopying s \<Longrightarrow> frames s h \<noteq> Some (ProgressFrame animationDuration)"
  by (auto simp: progressTracked_def)




lemma progress_stopProgress: "progressTracked s \<Longrightarrow> progressTracked (stopProgressAnimation s)"
  by (auto simp: progressTracked_def stopProgressAnimation_eq split: option.splits if_splits)































section \<open>Mutual exclusion of dragging, copying and input mode\<close>

text \<open>
  C1, as stated, fails. Hold the activation chord until the hold timer fires, press the
  pointer, then press Enter while the keys are still held: the Enter branch of the
  \<^verbatim>\<open>keydown\<close> listener (lines 1414-1443) enters input mode without looking at
  \<open>isDragging\<close>, so dragging and input mode are both true.
\<close>

theorem flags_overlap_after_enter_during_drag:
  "let s = run demoExt demoOptions demoDom
             [KeyDown (keyPress ''c'' True False), Elapse 200, Timeout 1,
              MouseDown 10 10 False, KeyDown (keyPress ''Enter'' True False)]
             (initialState demoExt False)
   in isDragging s \<and> isInputMode s"
  unfolding Let_def by (simp add: eval_defs)

lemma pointerUp_not_dragging: "\<not> isDragging (handlePointerUp ext d x y s)"
  by (simp add: handlePointerUp_def Let_def emit_def stopAutoScroll_eq
      split: prod.splits list.splits option.splits)

text \<open>
  C1, amended. A pointer-down (mouse or touch) that enters dragging finds the machine
  activated, not copying and not in input mode, and leaves it so: at that instant dragging
  is the only one of the three flags that is set. A pointer-up always leaves dragging
  cleared, so every copy it schedules starts after that drag has ended.
\<close>

theorem pointer_down_enters_dragging_alone:
  assumes "s' = step ext opts d e s"
  shows "((e = MouseDown clientX clientY overlay \<or> e = TouchStart clientX clientY overlay) \<and>
          \<not> isDragging s \<and> isDragging s' \<longrightarrow>
            isActivated s \<and> \<not> isCopying s \<and> \<not> isInputMode s \<and>
            isActivated s' \<and> \<not> isCopying s' \<and> \<not> isInputMode s') \<and>
         (e = MouseUp clientX clientY \<or> e = TouchEnd clientX clientY \<longrightarrow> \<not> isDragging s')"
proof -
  have down: "(e = MouseDown clientX clientY overlay \<or> e = TouchStart clientX clientY overlay) \<and>
          \<not> isDragging s \<and> isDragging s' \<longrightarrow>
            isActivated s \<and> \<not> isCopying s \<and> \<not> isInputMode s \<and>
            isActivated s' \<and> \<not> isCopying s' \<and> \<not> isInputMode s'"
    using assms
    by (auto simp: step_def handle_def mousedown_def touchstart_def handleInputCancel_def
        handlePointerDown_def isRendererActive_def Let_def runEffects_eq emit_def
        split: if_splits)
  have up: "e = MouseUp clientX clientY \<or> e = TouchEnd clientX clientY \<longrightarrow> \<not> isDragging s'"
    using assms pointerUp_not_dragging[of ext d clientX clientY s]
    by (auto simp: step_def handle_def runEffects_eq)
  from down up show ?thesis by blast
qed

theorem pointer_down_enters_dragging_alone_witness:
  "let s = run demoExt demoOptions demoDom
             [KeyDown (keyPress ''c'' True False), Elapse 200, Timeout 1] (initialState demoExt False);
       s' = step demoExt demoOptions demoDom (MouseDown 10 10 False) s;
       s'' = step demoExt demoOptions demoDom (MouseUp 10 10) s'
   in \<not> isDragging s \<and> isDragging s' \<and> isActivated s' \<and> \<not> isCopying s' \<and> \<not> isInputMode s' \<and>
      \<not> isDragging s''"
proof -
  let ?s = "run demoExt demoOptions demoDom
             [KeyDown (keyPress ''c'' True False), Elapse 200, Timeout 1] (initialState demoExt False)"
  let ?s' = "step demoExt demoOptions demoDom (MouseDown 10 10 False) ?s"
  have h: "\<not> isDragging ?s" "isDragging ?s'" by (simp_all add: eval_defs)
  from pointer_down_enters_dragging_alone[OF refl, where ext=demoExt and opts=demoOptions
      and d=demoDom and e="MouseDown 10 10 False" and s="?s" and clientX=10 and clientY=10
      and overlay=False]
    pointer_down_enters_dragging_alone[OF refl, where ext=demoExt and opts=demoOptions
      and d=demoDom and e="MouseUp 10 10" and s="?s'" and clientX=10 and clientY=10] h
  show ?thesis by (simp add: Let_def)
qed

section \<open>Click or drag\<close>

text \<open>
  While the pointer travels, the drag stays in progress, its start stays where it was, and
  the agent provider stays as it is.
\<close>

lemma travel_step:
  assumes "isDragging s" and "isPointerTravel e"
  shows "isDragging (step ext opts d e s) \<and> dragStartX (step ext opts d e s) = dragStartX s \<and>
         dragStartY (step ext opts d e s) = dragStartY s \<and>
         hasAgentProvider (step ext opts d e s) = hasAgentProvider s"
  using assms
  by (cases e)
     (auto simp: step_def handle_def runEffects_eq mousemove_def touchmove_def
        handlePointerMove_def startAutoScroll_def scroll_def scrollWindow_eq stopAutoScroll_eq
        fireFrame_def animateProgress_def requestAnimationFrame_def writeSignal_eq Let_def
        split: option.splits frame_cb.splits)

lemma travel_run:
  assumes "isDragging s \<and> dragStartX s = x \<and> dragStartY s = y \<and> hasAgentProvider s = a"
    and "\<forall>e \<in> set es. isPointerTravel e"
  shows "isDragging (run ext opts d es s) \<and> dragStartX (run ext opts d es s) = x \<and>
         dragStartY (run ext opts d es s) = y \<and> hasAgentProvider (run ext opts d es s) = a"
  using assms
proof (induction es arbitrary: s)
  case Nil
  then show ?case by simp
next
  case (Cons e es)
  from travel_step[of s e ext opts d] Cons.prems
  have "isDragging (step ext opts d e s) \<and> dragStartX (step ext opts d e s) = x \<and>
        dragStartY (step ext opts d e s) = y \<and> hasAgentProvider (step ext opts d e s) = a"
    by simp
  from Cons.IH[OF this] Cons.prems(2) show ?case by simp
qed

text \<open>What one pointer-up adds to the effects when a drag is in progress.\<close>

lemma pointerUp_effects:
  assumes "isDragging s"
  shows "effects (handlePointerUp ext d clientX clientY s) =
     effects s @
       (let (distX, distY) = calculateDragDistance ext s clientX clientY;
            dragRect = calculateDragRectangle ext s clientX clientY
        in if distX > DRAG_THRESHOLD_PX ext \<or> distY > DRAG_THRESHOLD_PX ext
           then
             (let strict = getElementsInDrag d dragRect;
                  selected = (if strict \<noteq> [] then strict else getElementsInDragLoose d dragRect)
              in [ElementsInDrag dragRect] @
                 (if strict = [] then [ElementsInDragLoose dragRect] else []) @
                 (if selected = [] then []
                  else OnDragEnd selected dragRect #
                       (if hasAgentProvider s then []
                        else [CopyScheduled (MultipleElements selected) None False])))
           else
             ElementAtPoint clientX clientY #
             (case getElementAtPosition d clientX clientY of
                None \<Rightarrow> []
              | Some element \<Rightarrow> [CopyScheduled (SingleElement element) None False]))"
  using assms
  by (simp add: handlePointerUp_def Let_def emit_def calculateDragRectangle_def
      calculateDragDistance_def split: prod.splits list.splits option.splits)

text \<open>
  With an agent provider, the first element of a drag selection is frozen and the machine
  enters input mode.
\<close>

lemma pointerUp_drag_result:
  assumes "isDragging s"
    and "calculateDragDistance ext s clientX clientY = (distX, distY)"
    and "distX > DRAG_THRESHOLD_PX ext \<or> distY > DRAG_THRESHOLD_PX ext"
    and "dragRect = calculateDragRectangle ext s clientX clientY"
    and "selected = (if getElementsInDrag d dragRect = [] then getElementsInDragLoose d dragRect
                     else getElementsInDrag d dragRect)"
    and "selected \<noteq> []" and "hasAgentProvider s"
  shows "isInputMode (handlePointerUp ext d clientX clientY s) \<and>
         frozenElement (handlePointerUp ext d clientX clientY s) = Some (hd selected)"
  using assms
  by (auto simp: handlePointerUp_def Let_def emit_def calculateDragRectangle_def
      split: prod.splits list.splits)

text \<open>
  C2. A pointer-down that the machine handles (renderer active, not in input mode, not on
  the overlay), any travel of the pointer in between (moves, scrolling, frames), and the
  pointer-up. The displacement is the one the code computes: in page coordinates, with the
  scroll position of each of the two moments, in the arithmetic of doubles. If it is at
  most the threshold on both axes, the only geometry query of the pointer-up is the element
  lookup at the up position, and the gesture is resolved with its answer: the copy of that
  element is scheduled (nothing is, if there is none). If the displacement exceeds the threshold on an axis, the strict rectangle query
  is made, and the loose one is made as well exactly when the strict one returns nothing;
  the gesture is resolved with the elements of the strict query, or of the loose one when
  the strict one is empty: they are handed to the drag-end hook, and either their copy is
  scheduled or, with an agent provider, the first of them is frozen and the machine enters
  input mode.
\<close>

theorem pointer_pair_resolution:
  assumes "isRendererActive s" and "\<not> isInputMode s"
    and "down = MouseDown downX downY False \<or> down = TouchStart downX downY False"
    and "up = MouseUp upX upY \<or> up = TouchEnd upX upY"
    and "\<forall>e \<in> set travel. isPointerTravel e"
    and "s1 = step ext opts d down s"
    and "s2 = run ext opts d travel s1"
    and "s3 = step ext opts d up s2"
    and "startX = jsAdd ext downX (scrollX s)" and "startY = jsAdd ext downY (scrollY s)"
    and "endX = jsAdd ext upX (scrollX s2)" and "endY = jsAdd ext upY (scrollY s2)"
    and "distX = \<bar>jsSub ext endX startX\<bar>" and "distY = \<bar>jsSub ext endY startY\<bar>"
    and "dragRect = \<lparr>rectX = jsSub ext (min startX endX) (scrollX s2),
                     rectY = jsSub ext (min startY endY) (scrollY s2),
                     rectWidth = distX, rectHeight = distY\<rparr>"
    and "strict = getElementsInDrag d dragRect"
    and "selected = (if strict = [] then getElementsInDragLoose d dragRect else strict)"
  shows "\<exists>new. effects s3 = effects s2 @ new \<and>
           (distX \<le> DRAG_THRESHOLD_PX ext \<and> distY \<le> DRAG_THRESHOLD_PX ext \<longrightarrow>
              filter isGeometryQuery new = [ElementAtPoint upX upY] \<and>
              new = ElementAtPoint upX upY #
                    (case getElementAtPosition d upX upY of
                       None \<Rightarrow> []
                     | Some element \<Rightarrow> [CopyScheduled (SingleElement element) None False])) \<and>
           (distX > DRAG_THRESHOLD_PX ext \<or> distY > DRAG_THRESHOLD_PX ext \<longrightarrow>
              filter isGeometryQuery new =
                (if strict = []
                 then [ElementsInDrag dragRect, ElementsInDragLoose dragRect]
                 else [ElementsInDrag dragRect]) \<and>
              new = [ElementsInDrag dragRect] @
                    (if strict = [] then [ElementsInDragLoose dragRect] else []) @
                    (if selected = [] then []
                     else OnDragEnd selected dragRect #
                          (if hasAgentProvider s then []
                           else [CopyScheduled (MultipleElements selected) None False])) \<and>
              (selected \<noteq> [] \<and> hasAgentProvider s \<longrightarrow>
                 isInputMode s3 \<and> frozenElement s3 = Some (hd selected)))"
proof -
  have s1: "isDragging s1 \<and> dragStartX s1 = startX \<and> dragStartY s1 = startY \<and>
            hasAgentProvider s1 = hasAgentProvider s"
    using assms(1,2,3,6,9,10)
    by (auto simp: step_def handle_def mousedown_def touchstart_def handlePointerDown_def
        isRendererActive_def Let_def runEffects_eq emit_def)
  have s2: "isDragging s2" "dragStartX s2 = startX" "dragStartY s2 = startY"
    "hasAgentProvider s2 = hasAgentProvider s"
    using travel_run[OF s1 assms(5), where ext=ext and opts=opts and d=d] assms(7) by simp_all
  let ?h = "handlePointerUp ext d upX upY s2"
  have s3: "effects s3 = effects ?h" "isInputMode s3 = isInputMode ?h" "frozenElement s3 = frozenElement ?h"
    using assms(4,8) by (auto simp: step_def handle_def runEffects_eq)
  have dist: "calculateDragDistance ext s2 upX upY = (distX, distY)"
    using s2 assms(11-14) by (simp add: calculateDragDistance_def Let_def)
  have rect: "dragRect = calculateDragRectangle ext s2 upX upY"
    using s2 assms(11-15) by (simp add: calculateDragRectangle_def Let_def)
  have sel: "selected = (if getElementsInDrag d dragRect = [] then getElementsInDragLoose d dragRect
                         else getElementsInDrag d dragRect)"
    using assms(16,17) by simp
  let ?click = "ElementAtPoint upX upY #
                    (case getElementAtPosition d upX upY of
                       None \<Rightarrow> []
                     | Some element \<Rightarrow> [CopyScheduled (SingleElement element) None False])"
  let ?drag = "[ElementsInDrag dragRect] @
                    (if strict = [] then [ElementsInDragLoose dragRect] else []) @
                    (if selected = [] then []
                     else OnDragEnd selected dragRect #
                          (if hasAgentProvider s then []
                           else [CopyScheduled (MultipleElements selected) None False]))"
  let ?new = "if distX > DRAG_THRESHOLD_PX ext \<or> distY > DRAG_THRESHOLD_PX ext then ?drag else ?click"
  have eff: "effects s3 = effects s2 @ ?new"
    unfolding s3 pointerUp_effects[OF s2(1)] dist rect[symmetric]
    using s2(4) assms(16,17) by (auto simp: Let_def)
  have fc: "filter isGeometryQuery ?click = [ElementAtPoint upX upY]"
    by (simp split: option.splits)
  have fd: "filter isGeometryQuery ?drag =
                (if strict = []
                 then [ElementsInDrag dragRect, ElementsInDragLoose dragRect]
                 else [ElementsInDrag dragRect])"
    by simp
  have ag: "isInputMode s3 \<and> frozenElement s3 = Some (hd selected)"
    if "distX > DRAG_THRESHOLD_PX ext \<or> distY > DRAG_THRESHOLD_PX ext"
      and "selected \<noteq> []" and "hasAgentProvider s"
    using pointerUp_drag_result[OF s2(1) dist that(1) rect sel that(2)] that(3) s2(4)
    by (simp add: s3)
  show ?thesis
  proof (intro exI[of _ ?new] conjI impI)
    show "effects s3 = effects s2 @ ?new" by (rule eff)
  next
    assume c: "distX \<le> DRAG_THRESHOLD_PX ext \<and> distY \<le> DRAG_THRESHOLD_PX ext"
    then have n: "?new = ?click" by auto
    show "filter isGeometryQuery ?new = [ElementAtPoint upX upY]"
      unfolding n by (rule fc)
    show "?new = ?click" by (rule n)
  next
    assume c: "distX > DRAG_THRESHOLD_PX ext \<or> distY > DRAG_THRESHOLD_PX ext"
    then have n: "?new = ?drag" by simp
    show "filter isGeometryQuery ?new =
                (if strict = []
                 then [ElementsInDrag dragRect, ElementsInDragLoose dragRect]
                 else [ElementsInDrag dragRect])"
      unfolding n by (rule fd)
    show "?new = ?drag" by (rule n)
    show "isInputMode s3" if "selected \<noteq> [] \<and> hasAgentProvider s"
      using ag[OF c] that by simp
    show "frozenElement s3 = Some (hd selected)" if "selected \<noteq> [] \<and> hasAgentProvider s"
      using ag[OF c] that by simp
  qed
qed

theorem pointer_pair_resolution_witness:
  "let s = run demoExt demoOptions demoDom
             [KeyDown (keyPress ''c'' True False), Elapse 200, Timeout 1] (initialState demoExt False);
       s2 = run demoExt demoOptions demoDom
              [MouseDown 10 10 False, MouseMove 30 10 False, Scroll 0 5, MouseMove 50 10 False] s;
       dragRect = \<lparr>rectX = 10, rectY = 5, rectWidth = 40, rectHeight = 5\<rparr>;
       c2 = run demoExt demoOptions demoDom [MouseDown 10 10 False, MouseMove 11 10 False] s;
       c3 = step demoExt demoOptions demoDom (MouseUp 11 10) c2
   in isRendererActive s \<and> \<not> isInputMode s \<and> (40::real) > DRAG_THRESHOLD_PX demoExt \<and>
      getElementsInDrag demoDom dragRect = [] \<and>
      getElementsInDragLoose demoDom dragRect = [7, 8] \<and>
      effects (step demoExt demoOptions demoDom (MouseUp 50 10) s2) =
        effects s2 @ [ElementsInDrag dragRect, ElementsInDragLoose dragRect,
                      OnDragEnd [7, 8] dragRect,
                      CopyScheduled (MultipleElements [7, 8]) None False] \<and>
      (1::real) \<le> DRAG_THRESHOLD_PX demoExt \<and> getElementAtPosition demoDom 11 10 = Some 7 \<and>
      effects c3 = effects c2 @ [ElementAtPoint 11 10, CopyScheduled (SingleElement 7) None False]"
proof -
  let ?s = "run demoExt demoOptions demoDom
             [KeyDown (keyPress ''c'' True False), Elapse 200, Timeout 1] (initialState demoExt False)"
  let ?travel = "[MouseMove 30 10 False, Scroll 0 5, MouseMove 50 10 False]"
  let ?s1 = "step demoExt demoOptions demoDom (MouseDown 10 10 False) ?s"
  let ?s2 = "run demoExt demoOptions demoDom ?travel ?s1"
  let ?c2 = "run demoExt demoOptions demoDom [MouseMove 11 10 False] ?s1"
  have h: "isRendererActive ?s" "\<not> isInputMode ?s" "scrollX ?s = 0" "scrollY ?s = 0"
    "\<not> hasAgentProvider ?s"
    by (simp_all add: eval_defs)
  have h2: "scrollX ?s2 = 0" "scrollY ?s2 = 5" "scrollX ?c2 = 0" "scrollY ?c2 = 0"
    by (simp_all add: eval_defs mousemove_def handlePointerMove_def getAutoScrollDirection_def
        isNearEdge_def startAutoScroll_def scroll_def scrollWindow_eq)
  have tr: "\<forall>e \<in> set ?travel. isPointerTravel e" "\<forall>e \<in> set [MouseMove 11 10 False]. isPointerTravel e"
    by simp_all
  have t: "DRAG_THRESHOLD_PX demoExt = 2" "\<And>r. getElementsInDrag demoDom r = []"
    "\<And>r. getElementsInDragLoose demoDom r = [7, 8]" "\<And>x y. getElementAtPosition demoDom x y = Some 7"
    "\<And>a b. jsAdd demoExt a b = a + b" "\<And>a b. jsSub demoExt a b = a - b"
    by (simp_all add: demoExt_def demoDom_def)
  from pointer_pair_resolution[OF h(1,2) disjI1[OF refl] disjI1[OF refl] tr(1)
      refl refl refl refl refl refl refl refl refl refl refl refl,
      where ext=demoExt and opts=demoOptions and d=demoDom and downX=10 and downY=10
        and upX=50 and upY=10] h h2 t
  have a: "effects (step demoExt demoOptions demoDom (MouseUp 50 10) ?s2) =
        effects ?s2 @ [ElementsInDrag \<lparr>rectX = 10, rectY = 5, rectWidth = 40, rectHeight = 5\<rparr>,
                      ElementsInDragLoose \<lparr>rectX = 10, rectY = 5, rectWidth = 40, rectHeight = 5\<rparr>,
                      OnDragEnd [7, 8] \<lparr>rectX = 10, rectY = 5, rectWidth = 40, rectHeight = 5\<rparr>,
                      CopyScheduled (MultipleElements [7, 8]) None False]"
    by simp
  from pointer_pair_resolution[OF h(1,2) disjI1[OF refl] disjI1[OF refl] tr(2)
      refl refl refl refl refl refl refl refl refl refl refl refl,
      where ext=demoExt and opts=demoOptions and d=demoDom and downX=10 and downY=10
        and upX=11 and upY=10] h h2 t
  have b: "effects (step demoExt demoOptions demoDom (MouseUp 11 10) ?c2) =
             effects ?c2 @ [ElementAtPoint 11 10, CopyScheduled (SingleElement 7) None False]"
    by simp
  from a b h t show ?thesis by (simp add: Let_def)
qed

section \<open>Hidden tab\<close>


text \<open>
  Two copy operations that overlap each start a progress animation, and the variable holds
  only the frame requested last: the frame of the first animation stays pending when the
  machine is deactivated. (\<^verbatim>\<open>startProgressAnimation\<close>, lines 976-1000, does not cancel a
  running animation.)
\<close>

lemma overlapping_copies_leave_a_progress_frame:
  "let s = run demoExt demoOptions demoDom [ApiActivate, CopyStarted, CopyStarted, Elapse 600]
             (initialState demoExt False);
       s' = step demoExt demoOptions demoDom (VisibilityChange True) s
   in frames s 1 = Some (ProgressFrame 200) \<and> frames s 2 = Some (ProgressFrame 200) \<and>
      progressAnimationId s = Some 2 \<and>
      \<not> isActivated s' \<and> frames s' 1 = Some (ProgressFrame 200) \<and> frames s' 2 = None"
  unfolding Let_def by (simp add: eval2)



section \<open>Releasing the modifier before the hold elapses\<close>






section \<open>Key repeat\<close>

text \<open>Under key repeat, with keys held or the machine activated, the listener arms nothing.\<close>

lemma armTimers_repeat:
  "repeat ev \<Longrightarrow> isHoldingKeys s \<or> isActivated s \<Longrightarrow> armTimers opts ev s = s"
  by (auto simp: armTimers_def)

lemma keydown_repeat_cases:
  assumes "repeat ev" and "isHoldingKeys s \<or> isActivated s"
    and "P s" and "P (emit AbortAllSessions s)" and "P (deactivateRenderer s)"
    and "isHoldingKeys s \<Longrightarrow> P (enterInputMode s)"
  shows "P (keydown ext opts ev s)"
  using assms
  by (auto simp: keydown_def Let_def armTimers_repeat)

text \<open>
  C8. A \<^verbatim>\<open>keydown\<close> with the repeat flag, while the keys are held or the machine is
  activated: the hold timer variable is unchanged, no timeout or frame is created (the
  next handle is the same and every pending timeout was pending before), and while
  activated \<^verbatim>\<open>activateRenderer\<close> is not called again.
\<close>

theorem repeat_keydown_never_rearms:
  assumes "repeat ev" and "isHoldingKeys s \<or> isActivated s"
    and "s' = step ext opts d (KeyDown ev) s"
  shows "holdTimerId s' = holdTimerId s \<and> nextHandle s' = nextHandle s \<and>
         (\<forall>h cb. timeouts s' h = Some cb \<longrightarrow> timeouts s h = Some cb) \<and>
         (isActivated s \<longrightarrow> (\<exists>new. effects s' = effects s @ new \<and> OnActivate \<notin> set new))"
  unfolding assms(3) step_def handle_def event.case
  by (rule keydown_repeat_cases[OF assms(1,2)])
     (auto simp: prim_eqs enterInputMode_eq split: if_splits)

theorem repeat_keydown_never_rearms_witness:
  "let s = run demoExt demoOptions demoDom [KeyDown (keyPress ''c'' True False)] (initialState demoExt False);
       s' = step demoExt demoOptions demoDom (KeyDown (keyPress ''c'' True True)) s
   in repeat (keyPress ''c'' True True) \<and> isHoldingKeys s \<and> timeouts s 1 = Some (HoldElapsed, 200) \<and>
      holdTimerId s' = Some 1 \<and> nextHandle s' = 2 \<and> timeouts s' 1 = Some (HoldElapsed, 200)"
proof -
  let ?s = "run demoExt demoOptions demoDom [KeyDown (keyPress ''c'' True False)] (initialState demoExt False)"
  let ?ev = "keyPress ''c'' True True"
  let ?s' = "step demoExt demoOptions demoDom (KeyDown ?ev) ?s"
  have r: "repeat ?ev" by (simp add: keyPress_def)
  have h: "isHoldingKeys ?s \<or> isActivated ?s" by (simp add: eval_defs)
  have s: "holdTimerId ?s = Some 1" "nextHandle ?s = 2" "timeouts ?s 1 = Some (HoldElapsed, 200)"
    by (simp_all add: eval_defs)
  have s': "timeouts ?s' 1 = Some (HoldElapsed, 200)" by (simp add: eval_defs)
  from repeat_keydown_never_rearms[OF r h refl, of demoExt demoOptions demoDom] s s' r h
  show ?thesis by (simp add: Let_def eval_defs)
qed

section \<open>Cursor override\<close>

text \<open>
  C9. After every event the cursor style element is determined by the five signals in
  this order: copying gives progress; otherwise input mode gives no override; otherwise
  activated and dragging gives crosshair; otherwise activated with a target gives default;
  otherwise activated gives crosshair; otherwise no override.
\<close>

theorem cursor_override_priority:
  assumes "s' = step ext opts d e s"
  shows "(isCopying s' \<longrightarrow> cursorStyleElement s' = Some (cursorRule ''progress'')) \<and>
         (\<not> isCopying s' \<and> isInputMode s' \<longrightarrow> cursorStyleElement s' = None) \<and>
         (\<not> isCopying s' \<and> \<not> isInputMode s' \<and> isActivated s' \<and> isDragging s' \<longrightarrow>
            cursorStyleElement s' = Some (cursorRule ''crosshair'')) \<and>
         (\<not> isCopying s' \<and> \<not> isInputMode s' \<and> isActivated s' \<and> \<not> isDragging s' \<and>
          targetElement s' \<noteq> None \<longrightarrow> cursorStyleElement s' = Some (cursorRule ''default'')) \<and>
         (\<not> isCopying s' \<and> \<not> isInputMode s' \<and> isActivated s' \<and> \<not> isDragging s' \<and>
          targetElement s' = None \<longrightarrow> cursorStyleElement s' = Some (cursorRule ''crosshair'')) \<and>
         (\<not> isCopying s' \<and> \<not> isInputMode s' \<and> \<not> isActivated s' \<longrightarrow>
            cursorStyleElement s' = None)"
  unfolding assms step_def
  by (auto simp: runEffects_eq cursorFor_def targetElement_def isRendererActive_def)

theorem cursor_override_priority_witness:
  "let st = (\<lambda>evs. run demoExt demoOptions demoDom evs (initialState demoExt False))
   in cursorStyleElement (st [ApiActivate, CopyStarted]) = Some (cursorRule ''progress'') \<and>
      cursorStyleElement (st [KeyDown (keyPress ''c'' True False), KeyDown (keyPress ''Enter'' True False)]) = None \<and>
      cursorStyleElement (st [ApiActivate, MouseDown 10 10 False]) = Some (cursorRule ''crosshair'') \<and>
      cursorStyleElement (st [ApiActivate, ElementDetected (Some 7)]) = Some (cursorRule ''default'') \<and>
      cursorStyleElement (st [ApiActivate]) = Some (cursorRule ''crosshair'') \<and>
      cursorStyleElement (st [Elapse 0]) = None"
proof -
  let ?i = "initialState demoExt False"
  let ?st = "\<lambda>e s. step demoExt demoOptions demoDom e s"
  let ?a = "?st ApiActivate ?i"
  let ?k = "?st (KeyDown (keyPress ''c'' True False)) ?i"
  have f1: "isCopying (?st CopyStarted ?a)" by (simp add: eval2)
  have f2: "\<not> isCopying (?st (KeyDown (keyPress ''Enter'' True False)) ?k)"
    "isInputMode (?st (KeyDown (keyPress ''Enter'' True False)) ?k)" by (simp_all add: eval2)
  have f3: "\<not> isCopying (?st (MouseDown 10 10 False) ?a)" "\<not> isInputMode (?st (MouseDown 10 10 False) ?a)"
    "isActivated (?st (MouseDown 10 10 False) ?a)" "isDragging (?st (MouseDown 10 10 False) ?a)"
    by (simp_all add: eval2)
  have f4: "\<not> isCopying (?st (ElementDetected (Some 7)) ?a)" "\<not> isInputMode (?st (ElementDetected (Some 7)) ?a)"
    "isActivated (?st (ElementDetected (Some 7)) ?a)" "\<not> isDragging (?st (ElementDetected (Some 7)) ?a)"
    "targetElement (?st (ElementDetected (Some 7)) ?a) \<noteq> None"
    by (simp_all add: eval2)
  have f5: "\<not> isCopying ?a" "\<not> isInputMode ?a" "isActivated ?a" "\<not> isDragging ?a" "targetElement ?a = None"
    by (simp_all add: eval2)
  have f6: "\<not> isCopying (?st (Elapse 0) ?i)" "\<not> isInputMode (?st (Elapse 0) ?i)" "\<not> isActivated (?st (Elapse 0) ?i)"
    by (simp_all add: eval2)
  from cursor_override_priority[OF refl, where ext=demoExt and opts=demoOptions and d=demoDom
      and e="CopyStarted" and s="?a"] f1
  have c1: "cursorStyleElement (?st CopyStarted ?a) = Some (cursorRule ''progress'')" by blast
  from cursor_override_priority[OF refl, where ext=demoExt and opts=demoOptions and d=demoDom
      and e="KeyDown (keyPress ''Enter'' True False)" and s="?k"] f2
  have c2: "cursorStyleElement (?st (KeyDown (keyPress ''Enter'' True False)) ?k) = None" by blast
  from cursor_override_priority[OF refl, where ext=demoExt and opts=demoOptions and d=demoDom
      and e="MouseDown 10 10 False" and s="?a"] f3
  have c3: "cursorStyleElement (?st (MouseDown 10 10 False) ?a) = Some (cursorRule ''crosshair'')" by blast
  from cursor_override_priority[OF refl, where ext=demoExt and opts=demoOptions and d=demoDom
      and e="ElementDetected (Some 7)" and s="?a"] f4
  have c4: "cursorStyleElement (?st (ElementDetected (Some 7)) ?a) = Some (cursorRule ''default'')" by blast
  from cursor_override_priority[OF refl, where ext=demoExt and opts=demoOptions and d=demoDom
      and e="ApiActivate" and s="?i"] f5
  have c5: "cursorStyleElement ?a = Some (cursorRule ''crosshair'')" by blast
  from cursor_override_priority[OF refl, where ext=demoExt and opts=demoOptions and d=demoDom
      and e="Elapse 0" and s="?i"] f6
  have c6: "cursorStyleElement (?st (Elapse 0) ?i) = None" by blast
  from c1 c2 c3 c4 c5 c6 show ?thesis by (simp add: Let_def)
qed

section \<open>The inert stub\<close>

text \<open>
  C10. While the module guard is set, or when the merged \<^verbatim>\<open>enabled\<close> option is false,
  \<^verbatim>\<open>init\<close> returns the stub and leaves the module as it is; and on the stub, in any state of
  the module, \<^verbatim>\<open>isActive\<close> answers false, \<^verbatim>\<open>copyElement\<close> resolves to false with no write
  and no hook, \<^verbatim>\<open>getState\<close> reports the inactive state, and \<^verbatim>\<open>activate\<close>, \<^verbatim>\<open>deactivate\<close>,
  \<^verbatim>\<open>toggle\<close> and \<^verbatim>\<open>dispose\<close> change nothing.
\<close>

theorem init_again_returns_inert_stub:
  assumes "hasInited m \<or> spread (spread (Given True) scriptEnabled) rawEnabled = Given False"
  shows "init ext windowDefined scriptEnabled rawEnabled agentProvider m = (StubAPI, m) \<and>
         (\<forall>m'. callAPI ext cenv maxLines StubAPI IsActive m' = (Answer False, m') \<and>
               (\<forall>elements. callAPI ext cenv maxLines StubAPI (CopyElement elements) m' =
                              (Copied ([], Inr False), m')) \<and>
               callAPI ext cenv maxLines StubAPI GetState m' = (StateOf inactiveState, m') \<and>
               callAPI ext cenv maxLines StubAPI Activate m' = (Done, m') \<and>
               callAPI ext cenv maxLines StubAPI Deactivate m' = (Done, m') \<and>
               callAPI ext cenv maxLines StubAPI Toggle m' = (Done, m') \<and>
               callAPI ext cenv maxLines StubAPI Dispose m' = (Done, m'))"
  using assms by (auto simp: init_def callAPI_def Let_def)

theorem init_again_returns_inert_stub_witness:
  "let running = \<lparr>hasInited = True, instances = [initialState demoExt False]\<rparr>;
       fresh = \<lparr>hasInited = False, instances = []\<rparr>
   in hasInited running \<and>
      init demoExt True Absent Absent False running = (StubAPI, running) \<and>
      spread (spread (Given True) Absent) (Given False) = Given False \<and>
      init demoExt True Absent (Given False) False fresh = (StubAPI, fresh) \<and>
      callAPI demoExt retryEnv 10 StubAPI IsActive running = (Answer False, running) \<and>
      callAPI demoExt retryEnv 10 StubAPI (CopyElement (OneElement 0)) running =
        (Copied ([], Inr False), running) \<and>
      callAPI demoExt retryEnv 10 StubAPI Dispose running = (Done, running)"
proof -
  let ?running = "\<lparr>hasInited = True, instances = [initialState demoExt False]\<rparr>"
  let ?fresh = "\<lparr>hasInited = False, instances = []\<rparr>"
  have h1: "hasInited ?running \<or> spread (spread (Given True) Absent) Absent = Given False"
    by simp
  have h2: "hasInited ?fresh \<or> spread (spread (Given True) Absent) (Given False) = Given False"
    by (simp add: spread_def)
  from init_again_returns_inert_stub[OF h1, where windowDefined=True and agentProvider=False
         and ext=demoExt and cenv=retryEnv and maxLines=10]
       init_again_returns_inert_stub[OF h2, where windowDefined=True and agentProvider=False
         and ext=demoExt and cenv=retryEnv and maxLines=10]
  show ?thesis by (simp add: Let_def spread_def)
qed

end
